theory Spec2Isabelle
  imports Complex_Main
begin

section \<open>The MaskClip decode head\<close>

text \<open>
  A shallow embedding of \<^verbatim>\<open>mmseg/models/decode_heads/maskclip_head.py\<close>.
  Tensors carry their shape and an element function; numbers are real numbers (rounding
  and overflow are not modelled), and a real number or NaN behind the one division that
  has no guard. Every exception the Python code or a torch operation raises is a value
  \<open>Inl e\<close> of the result type \<open>error + 'a\<close>.
\<close>

subsection \<open>Errors\<close>

datatype error =
  AssertionError | AttributeError | IndexError | KeyError | RuntimeError | TypeError | NonFinite

text \<open>
  All but the last are the Python exception classes. \<open>NonFinite\<close> is no exception: it
  marks the one place the model does not follow the code, a logit map that holds NaN and
  enters \<^verbatim>\<open>refine_output\<close> (see \<open>forward\<close>).
\<close>

text \<open>Sequencing of fallible steps: the first exception ends the computation.\<close>

fun ebind :: "error + 'a \<Rightarrow> ('a \<Rightarrow> error + 'b) \<Rightarrow> error + 'b" where
  "ebind (Inl e) f = Inl e"
| "ebind (Inr x) f = f x"

subsection \<open>Tensors\<close>

text \<open>
  A tensor of rank 2, 3 or 4: its sizes and the element at each index. Only the elements
  at indices below the sizes belong to the tensor.
\<close>

record 'a tensor2 =
  rows :: nat
  cols :: nat
  elem2 :: "nat \<Rightarrow> nat \<Rightarrow> 'a"

record 'a tensor3 =
  d0 :: nat
  d1 :: nat
  d2 :: nat
  elem3 :: "nat \<Rightarrow> nat \<Rightarrow> nat \<Rightarrow> 'a"

record 'a tensor4 =
  dimN :: nat
  dimC :: nat
  dimH :: nat
  dimW :: nat
  elem4 :: "nat \<Rightarrow> nat \<Rightarrow> nat \<Rightarrow> nat \<Rightarrow> 'a"

text \<open>The largest element of a list; every caller raises before it reduces an empty list.\<close>

fun maxl :: "real list \<Rightarrow> real" where
  "maxl [] = 0"
| "maxl [x] = x"
| "maxl (x # y # ys) = max x (maxl (y # ys))"

text \<open>\<^verbatim>\<open>t * s\<close> for a scalar \<open>s\<close>.\<close>

definition scale4 :: "real tensor4 \<Rightarrow> real \<Rightarrow> real tensor4" where
  "scale4 t s = t\<lparr>elem4 := \<lambda>n c h w. elem4 t n c h w * s\<rparr>"

text \<open>\<^verbatim>\<open>F.softmax(t, dim=1)\<close>: the softmax over the channel axis.\<close>

definition softmax_dim1 :: "real tensor4 \<Rightarrow> real tensor4" where
  "softmax_dim1 t =
     t\<lparr>elem4 := \<lambda>n c h w.
          exp (elem4 t n c h w) / sum_list (map (\<lambda>j. exp (elem4 t n j h w)) [0..<dimC t])\<rparr>"

text \<open>\<^verbatim>\<open>F.softmax(output*100, dim=1)\<close>, the sharpened softmax of lines 144, 151 and 194.\<close>

definition softmax100 :: "real tensor4 \<Rightarrow> real tensor4" where
  "softmax100 output = softmax_dim1 (scale4 output 100)"

text \<open>\<^verbatim>\<open>m.t()\<close>\<close>

definition transpose2 :: "'a tensor2 \<Rightarrow> 'a tensor2" where
  "transpose2 m = \<lparr>rows = cols m, cols = rows m, elem2 = \<lambda>i j. elem2 m j i\<rparr>"

text \<open>\<^verbatim>\<open>a @ b\<close> of two matrices: torch raises when the inner sizes differ.\<close>

definition matmul2 :: "real tensor2 \<Rightarrow> real tensor2 \<Rightarrow> error + real tensor2" where
  "matmul2 a b =
     (if cols a = rows b
      then Inr \<lparr>rows = rows a, cols = cols b,
                elem2 = \<lambda>i j. sum_list (map (\<lambda>m. elem2 a i m * elem2 b m j) [0..<cols a])\<rparr>
      else Inl RuntimeError)"

text \<open>
  \<^verbatim>\<open>row.topk(k)[1]\<close>: the indices of the \<open>k\<close> largest entries, largest first.
  torch leaves the order among equal entries open; the model takes the lower index first.
\<close>

definition topk_row :: "nat \<Rightarrow> real list \<Rightarrow> nat list" where
  "topk_row k xs = take k (sort_key (\<lambda>i. - (xs ! i)) [0..<length xs])"

text \<open>\<^verbatim>\<open>m.topk(k, dim=1)[1]\<close>: one index list per row; torch raises when \<open>k\<close> exceeds the row length.\<close>

definition topk :: "nat \<Rightarrow> real tensor2 \<Rightarrow> error + nat list list" where
  "topk k m =
     (if cols m < k then Inl RuntimeError
      else Inr (map (\<lambda>n. topk_row k (map (elem2 m n) [0..<cols m])) [0..<rows m]))"

text \<open>\<^verbatim>\<open>t.transpose(-2, -1)\<close> of a rank 3 tensor.\<close>

definition transpose3 :: "'a tensor3 \<Rightarrow> 'a tensor3" where
  "transpose3 t = \<lparr>d0 = d0 t, d1 = d2 t, d2 = d1 t, elem3 = \<lambda>n i j. elem3 t n j i\<rparr>"

text \<open>
  \<^verbatim>\<open>a @ b\<close> of two rank 3 tensors, a batched matrix product. The batch sizes broadcast:
  they are equal, or one of them is 1. torch raises otherwise, and when the inner sizes
  differ.
\<close>

definition matmul3 :: "real tensor3 \<Rightarrow> real tensor3 \<Rightarrow> error + real tensor3" where
  "matmul3 a b =
     (if d2 a = d1 b \<and> (d0 a = d0 b \<or> d0 a = 1 \<or> d0 b = 1)
      then Inr \<lparr>d0 = (if d0 a = 1 then d0 b else d0 a), d1 = d1 a, d2 = d2 b,
                elem3 = \<lambda>n i j. sum_list (map (\<lambda>m.
                    elem3 a (if d0 a = 1 then 0 else n) i m *
                    elem3 b (if d0 b = 1 then 0 else n) m j) [0..<d2 a])\<rparr>
      else Inl RuntimeError)"

text \<open>
  \<^verbatim>\<open>F.normalize(k, p=2)\<close>. The axis is the default \<^verbatim>\<open>dim=1\<close> and the norm is
  clamped from below by the default \<^verbatim>\<open>eps=1e-12\<close>.
\<close>

definition normalize_dim1 :: "real tensor3 \<Rightarrow> real tensor3" where
  "normalize_dim1 k =
     k\<lparr>elem3 := \<lambda>n p c.
          elem3 k n p c /
          max (sqrt (sum_list (map (\<lambda>q. (elem3 k n q c)\<^sup>2) [0..<d1 k]))) (1 / 10 ^ 12)\<rparr>"

text \<open>\<^verbatim>\<open>t[:, a:]\<close> and \<^verbatim>\<open>t[:, :a]\<close> for \<open>a \<ge> 0\<close>: Python clamps a slice to the axis.\<close>

definition slice_from :: "nat \<Rightarrow> 'a tensor4 \<Rightarrow> 'a tensor4" where
  "slice_from a t = t\<lparr>dimC := dimC t - a, elem4 := \<lambda>n c. elem4 t n (a + c)\<rparr>"

definition slice_to :: "nat \<Rightarrow> 'a tensor4 \<Rightarrow> 'a tensor4" where
  "slice_to a t = t\<lparr>dimC := min a (dimC t)\<rparr>"

text \<open>
  \<^verbatim>\<open>torch.max(t, dim=1, keepdim=True)[0]\<close>: torch raises on an axis of size 0 (the
  exception class differs between torch versions; the model records RuntimeError).
\<close>

definition max_dim1 :: "real tensor4 \<Rightarrow> error + real tensor4" where
  "max_dim1 t =
     (if dimC t = 0 then Inl RuntimeError
      else Inr (t\<lparr>dimC := 1,
                  elem4 := \<lambda>n c h w. maxl (map (\<lambda>j. elem4 t n j h w) [0..<dimC t])\<rparr>))"

text \<open>\<^verbatim>\<open>t.new_full((N, C, H, W), v)\<close>\<close>

definition new_full :: "nat \<Rightarrow> nat \<Rightarrow> nat \<Rightarrow> nat \<Rightarrow> 'a \<Rightarrow> 'a tensor4" where
  "new_full N C H W v = \<lparr>dimN = N, dimC = C, dimH = H, dimW = W, elem4 = \<lambda>n c h w. v\<rparr>"

text \<open>\<^verbatim>\<open>torch.cat([a, b], dim=1)\<close>: the other sizes have to agree.\<close>

definition cat_dim1 :: "'a tensor4 \<Rightarrow> 'a tensor4 \<Rightarrow> error + 'a tensor4" where
  "cat_dim1 a b =
     (if dimN a = dimN b \<and> dimH a = dimH b \<and> dimW a = dimW b
      then Inr \<lparr>dimN = dimN a, dimC = dimC a + dimC b, dimH = dimH a, dimW = dimW a,
                elem4 = \<lambda>n c h w. if c < dimC a then elem4 a n c h w
                                   else elem4 b n (c - dimC a) h w\<rparr>
      else Inl RuntimeError)"

text \<open>
  \<^verbatim>\<open>output.view(N, C, -1).transpose(-2, -1)\<close> (line 154): sample, position, class.
  The position of pixel \<open>(h, w)\<close> is \<open>h * W + w\<close>. The view with \<^verbatim>\<open>-1\<close> raises when
  \<open>N * C = 0\<close>; the callers check that.
\<close>

definition to_tokens :: "'a tensor4 \<Rightarrow> 'a tensor3" where
  "to_tokens t =
     \<lparr>d0 = dimN t, d1 = dimH t * dimW t, d2 = dimC t,
      elem3 = \<lambda>n p c. elem4 t n c (p div dimW t) (p mod dimW t)\<rparr>"

text \<open>
  \<^verbatim>\<open>output.transpose(-2, -1).view(N, C, H, W)\<close> (line 187): the view raises unless the
  tensor holds \<open>N * C * H * W\<close> elements.
\<close>

definition from_tokens :: "nat \<Rightarrow> nat \<Rightarrow> nat \<Rightarrow> nat \<Rightarrow> 'a tensor3 \<Rightarrow> error + 'a tensor4" where
  "from_tokens N C H W t =
     (if d0 t * d1 t * d2 t = N * C * H * W
      then Inr \<lparr>dimN = N, dimC = C, dimH = H, dimW = W,
                elem4 = \<lambda>n c h w. elem3 t n (h * W + w) c\<rparr>
      else Inl RuntimeError)"

subsection \<open>Numbers that may be NaN\<close>

text \<open>
  The division of \<^verbatim>\<open>cls_seg\<close> has no guard, and IEEE arithmetic answers \<open>0 / 0\<close> with
  NaN instead of raising. The values that leave that division are therefore a real number
  or NaN, and NaN spreads through sums and products as it does in IEEE arithmetic.
\<close>

datatype fl = Fin real | NaN

instantiation fl :: "{comm_monoid_add, times}"
begin

definition zero_fl :: fl where
  "zero_fl = Fin 0"

definition plus_fl :: "fl \<Rightarrow> fl \<Rightarrow> fl" where
  "plus_fl a b = (case a of NaN \<Rightarrow> NaN | Fin x \<Rightarrow> (case b of NaN \<Rightarrow> NaN | Fin y \<Rightarrow> Fin (x + y)))"

definition times_fl :: "fl \<Rightarrow> fl \<Rightarrow> fl" where
  "times_fl a b = (case a of NaN \<Rightarrow> NaN | Fin x \<Rightarrow> (case b of NaN \<Rightarrow> NaN | Fin y \<Rightarrow> Fin (x * y)))"

instance
  by standard (auto simp: zero_fl_def plus_fl_def split: fl.splits)

end

text \<open>
  Division of two real numbers. A zero divisor gives NaN: in \<^verbatim>\<open>cls_seg\<close> the divisor is
  a norm, and a norm is 0 only when every component it divides is 0.
\<close>

definition fl_div :: "real \<Rightarrow> real \<Rightarrow> fl" where
  "fl_div a b = (if b = 0 then NaN else Fin (a / b))"

definition real_of :: "fl \<Rightarrow> real" where
  "real_of x = (case x of Fin r \<Rightarrow> r | NaN \<Rightarrow> 0)"

definition map2d :: "('a \<Rightarrow> 'b) \<Rightarrow> 'a tensor2 \<Rightarrow> 'b tensor2" where
  "map2d f m = \<lparr>rows = rows m, cols = cols m, elem2 = \<lambda>i j. f (elem2 m i j)\<rparr>"

definition map4d :: "('a \<Rightarrow> 'b) \<Rightarrow> 'a tensor4 \<Rightarrow> 'b tensor4" where
  "map4d f t = \<lparr>dimN = dimN t, dimC = dimC t, dimH = dimH t, dimW = dimW t,
                 elem4 = \<lambda>n c h w. f (elem4 t n c h w)\<rparr>"

definition all_finite4 :: "fl tensor4 \<Rightarrow> bool" where
  "all_finite4 t =
     list_all (\<lambda>n. list_all (\<lambda>c. list_all (\<lambda>h. list_all (\<lambda>w.
       (case elem4 t n c h w of Fin r \<Rightarrow> True | NaN \<Rightarrow> False))
       [0..<dimW t]) [0..<dimH t]) [0..<dimC t]) [0..<dimN t]"

subsection \<open>Convolution\<close>

text \<open>\<^verbatim>\<open>m[:, :, None, None]\<close> of a matrix, and \<^verbatim>\<open>t[:, :, 0, 0]\<close> back.\<close>

definition unsqueeze_hw :: "'a tensor2 \<Rightarrow> 'a tensor4" where
  "unsqueeze_hw m =
     \<lparr>dimN = rows m, dimC = cols m, dimH = 1, dimW = 1, elem4 = \<lambda>i j h w. elem2 m i j\<rparr>"

definition squeeze_hw :: "'a tensor4 \<Rightarrow> error + 'a tensor2" where
  "squeeze_hw t =
     (if dimH t = 0 \<or> dimW t = 0 then Inl IndexError
      else Inr \<lparr>rows = dimN t, cols = dimC t, elem2 = \<lambda>i j. elem4 t i j 0 0\<rparr>)"

text \<open>
  \<^verbatim>\<open>F.conv2d(input, weight, bias)\<close> with the default stride 1, padding 0, dilation 1 and
  one group. The weight has shape (out channels, in channels, kernel height, kernel
  width). torch raises when the channel counts differ and when the kernel is larger than
  the input.
\<close>

definition conv2d ::
  "('a::{comm_monoid_add, times}) tensor4 \<Rightarrow> 'a tensor4 \<Rightarrow> 'a list option \<Rightarrow> error + 'a tensor4" where
  "conv2d input weight bias =
     (if dimC input = dimC weight \<and> dimH weight \<le> dimH input \<and> dimW weight \<le> dimW input \<and>
         (case bias of None \<Rightarrow> True | Some b \<Rightarrow> length b = dimN weight)
      then Inr \<lparr>dimN = dimN input, dimC = dimN weight,
                dimH = dimH input - dimH weight + 1, dimW = dimW input - dimW weight + 1,
                elem4 = \<lambda>n oc y x.
                  sum_list (map (\<lambda>i. sum_list (map (\<lambda>dy. sum_list (map (\<lambda>dx.
                      elem4 input n i (y + dy) (x + dx) * elem4 weight oc i dy dx)
                    [0..<dimW weight])) [0..<dimH weight])) [0..<dimC input])
                  + (case bias of None \<Rightarrow> 0 | Some b \<Rightarrow> b ! oc)\<rparr>
      else Inl RuntimeError)"

text \<open>\<^verbatim>\<open>feat.norm(dim=1, keepdim=True)\<close>: the L2 norm over the channel axis.\<close>

definition norm_dim1 :: "real tensor4 \<Rightarrow> real tensor4" where
  "norm_dim1 t =
     t\<lparr>dimC := 1,
       elem4 := \<lambda>n c h w. sqrt (sum_list (map (\<lambda>j. (elem4 t n j h w)\<^sup>2) [0..<dimC t]))\<rparr>"

text \<open>\<^verbatim>\<open>a / b\<close> where \<open>b\<close> has one channel, which broadcasts over the channels of \<open>a\<close>.\<close>

definition div_keepdim :: "real tensor4 \<Rightarrow> real tensor4 \<Rightarrow> fl tensor4" where
  "div_keepdim a b =
     \<lparr>dimN = dimN a, dimC = dimC a, dimH = dimH a, dimW = dimW a,
      elem4 = \<lambda>n c h w. fl_div (elem4 a n c h w) (elem4 b n 0 h w)\<rparr>"

subsection \<open>Checkpoint tensors and projection modules\<close>

text \<open>
  A tensor as a checkpoint stores it: its shape and its elements in row-major order.
  A state dict is a Python dict from parameter names to such tensors, in insertion order.
\<close>

record ntensor =
  shape :: "nat list"
  data :: "real list"

type_synonym state_dict = "(string \<times> ntensor) list"

text \<open>
  \<^verbatim>\<open>nn.Conv2d(in_channels, out_channels, 1)\<close>: the weight has shape
  \<open>[out_channels, in_channels, 1, 1]\<close>, the bias shape \<open>[out_channels]\<close>; the projection of
  the transformer variant is built with \<^verbatim>\<open>bias=False\<close>.
\<close>

record conv2d_module =
  in_channels :: nat
  out_channels :: nat
  weight :: ntensor
  bias :: "ntensor option"

subsection \<open>The constructor's threshold list\<close>

text \<open>
  The argument \<^verbatim>\<open>vote_thresh\<close> is a number or a list. Lines 39 to 41 turn a number into
  \<^verbatim>\<open>[vote_thresh] * num_vote\<close> (the empty list for \<open>num_vote \<le> 0\<close>) and keep a list.
\<close>

datatype vote_thresh_arg = Scalar real | ThreshList "real list"

definition init_vote_thresh :: "vote_thresh_arg \<Rightarrow> int \<Rightarrow> real list" where
  "init_vote_thresh vote_thresh num_vote =
     (case vote_thresh of
        ThreshList l \<Rightarrow> l
      | Scalar v \<Rightarrow> replicate (nat num_vote) v)"

subsection \<open>The head\<close>

text \<open>
  The fields of \<^verbatim>\<open>MaskClipHead\<close>. \<open>num_classes\<close> is set by the base class;
  \<open>modules\<close> holds the projections by attribute name (\<^verbatim>\<open>proj\<close>, or \<^verbatim>\<open>q_proj\<close>,
  \<^verbatim>\<open>k_proj\<close>, \<^verbatim>\<open>v_proj\<close> and \<^verbatim>\<open>c_proj\<close>); \<open>vote_thresh\<close> is the list the
  constructor leaves (lines 39 to 41); \<open>training\<close> is the mode flag of the module.
\<close>

record maskclip_head =
  text_categories :: nat
  text_channels :: nat
  num_classes :: nat
  text_embeddings :: "real tensor2"
  vit :: bool
  modules :: "string \<rightharpoonup> conv2d_module"
  bg_thresh :: real
  num_vote :: int
  vote_thresh :: "real list"
  topk_text :: int
  cls_thresh :: real
  attn_pooling :: bool
  num_heads :: nat
  training :: bool

subsection \<open>\<^verbatim>\<open>cls_seg\<close>\<close>

text \<open>Lines 124 to 128.\<close>

definition cls_seg :: "'z maskclip_head_scheme \<Rightarrow> real tensor4 \<Rightarrow> error + fl tensor4" where
  "cls_seg self feat =
     (let feat = div_keepdim feat (norm_dim1 feat);
          output = conv2d feat (unsqueeze_hw (map2d Fin (text_embeddings self))) None
      in output)"

subsection \<open>\<^verbatim>\<open>refine_output\<close>\<close>

text \<open>
  Lines 134 to 141, the branch \<^verbatim>\<open>self.topk_text > 0\<close>. The index tensor
  \<^verbatim>\<open>selected_cls\<close> has shape \<open>(rows of cls_token, k, H, W)\<close> and holds class indices.
  \<^verbatim>\<open>zeros[selected_cls] = output[selected_cls]\<close> indexes with one integer tensor, which
  torch applies to axis 0, the batch axis: every class index is read as a sample index.
  An index that is not below \<open>N\<close> raises IndexError; otherwise each sample whose number
  occurs among the indices is copied whole, and the other samples stay at \<open>-100\<close>.
  When \<open>H\<close> or \<open>W\<close> is 0 the expanded index tensor is empty.
\<close>

definition topk_gate ::
  "'z maskclip_head_scheme \<Rightarrow> real tensor4 \<Rightarrow> real tensor2 option \<Rightarrow> error + real tensor4" where
  "topk_gate self output cls_token =
     (case cls_token of
        None \<Rightarrow> Inl AssertionError
      | Some ct \<Rightarrow>
          ebind (matmul2 ct (transpose2 (text_embeddings self))) (\<lambda>cls_pred.
          ebind (topk (nat (topk_text self)) cls_pred) (\<lambda>selected_cls.
            let idx = (if dimH output = 0 \<or> dimW output = 0 then [] else concat selected_cls);
                zeros = new_full (dimN output) (dimC output) (dimH output) (dimW output) (- 100)
            in if list_ex (\<lambda>i. dimN output \<le> i) idx then Inl IndexError
               else Inr (zeros\<lparr>elem4 := \<lambda>n. if n \<in> set idx then elem4 output n
                                              else elem4 zeros n\<rparr>))))"

text \<open>
  \<^verbatim>\<open>_output.view(N, C, -1).max(dim=-1)[0]\<close> (line 145): the largest value of channel
  \<open>c\<close> of sample \<open>n\<close> over all positions.
\<close>

definition max_cls_conf :: "real tensor4 \<Rightarrow> nat \<Rightarrow> nat \<Rightarrow> real" where
  "max_cls_conf p n c = maxl (map (\<lambda>i. elem3 (to_tokens p) n i c) [0..<dimH p * dimW p])"

text \<open>
  Lines 143 to 147, the branch \<^verbatim>\<open>self.cls_thresh > 0\<close>. The view raises when
  \<open>N * C = 0\<close>, the maximum when there is no position.
\<close>

definition conf_gate :: "'z maskclip_head_scheme \<Rightarrow> real tensor4 \<Rightarrow> error + real tensor4" where
  "conf_gate self output =
     (let p = softmax100 output in
      if dimN output * dimC output = 0 \<or> dimH output * dimW output = 0 then Inl RuntimeError
      else Inr (output\<lparr>elem4 := \<lambda>n c h w.
                  if max_cls_conf p n c < cls_thresh self then - 100
                  else elem4 output n c h w\<rparr>))"

text \<open>Lines 133 to 147: the two gates are the branches of one \<^verbatim>\<open>if ... elif\<close>.\<close>

definition gating ::
  "'z maskclip_head_scheme \<Rightarrow> real tensor4 \<Rightarrow> real tensor2 option \<Rightarrow> error + real tensor4" where
  "gating self output cls_token =
     (if 0 < topk_text self then topk_gate self output cls_token
      else if 0 < cls_thresh self then conf_gate self output
      else Inr output)"

text \<open>
  The loop of lines 162 to 186 over \<^verbatim>\<open>range(self.num_vote)\<close>. With a non-empty
  threshold list an iteration overwrites the positions whose largest class value is below
  \<^verbatim>\<open>self.vote_thresh[i]\<close>; with an empty one it overwrites everything.
\<close>

fun vote_loop ::
  "real list \<Rightarrow> real tensor3 \<Rightarrow> nat list \<Rightarrow> real tensor3 \<Rightarrow> error + real tensor3" where
  "vote_loop vt attn [] output = Inr output"
| "vote_loop vt attn (i # is) output =
     (if length vt \<noteq> 0 then
        ebind (matmul3 attn output) (\<lambda>vote_output.
          if d2 output = 0 then Inl RuntimeError
          else if length vt \<le> i then Inl IndexError
          else if d0 vote_output = d0 output
          then vote_loop vt attn is
                 (output\<lparr>elem3 := \<lambda>n p c.
                    if maxl (map (elem3 output n p) [0..<d2 output]) < vt ! i
                    then elem3 vote_output n p c else elem3 output n p c\<rparr>)
          else Inl IndexError)
      else ebind (matmul3 attn output) (vote_loop vt attn is))"

text \<open>
  Lines 149 to 187. The state is the map and the flag \<^verbatim>\<open>output2logits\<close>. The product
  \<^verbatim>\<open>k @ k.transpose(-2, -1)\<close> cannot fail: the inner sizes are equal.
\<close>

definition voting ::
  "'z maskclip_head_scheme \<Rightarrow> real tensor4 \<times> bool \<Rightarrow> real tensor3 option \<Rightarrow>
   error + (real tensor4 \<times> bool)" where
  "voting self st k =
     (case k of
        None \<Rightarrow> Inr st
      | Some kt \<Rightarrow>
          if 0 < num_vote self then
            (let output = (if snd st then fst st else softmax100 (fst st)) in
             if dimN output * dimC output = 0 then Inl RuntimeError
             else
               ebind (matmul3 (normalize_dim1 kt) (transpose3 (normalize_dim1 kt))) (\<lambda>attn.
               ebind (vote_loop (vote_thresh self) attn [0..<nat (num_vote self)]
                        (to_tokens output)) (\<lambda>voted.
               ebind (from_tokens (dimN output) (dimC output) (dimH output) (dimW output) voted)
                 (\<lambda>output. Inr (output, True)))))
          else Inr st)"

text \<open>Lines 189 to 199.\<close>

definition background ::
  "'z maskclip_head_scheme \<Rightarrow> real tensor4 \<times> bool \<Rightarrow> error + real tensor4" where
  "background self st =
     (if num_classes self < text_categories self then
        ebind (max_dim1 (slice_from (num_classes self) (fst st))) (\<lambda>bg_output.
          cat_dim1 bg_output (slice_to (num_classes self) (fst st)))
      else if 0 < bg_thresh self then
        (let output = (if snd st then fst st else softmax100 (fst st)) in
         cat_dim1 (new_full (dimN output) 1 (dimH output) (dimW output) (bg_thresh self))
                  (slice_to (num_classes self) output))
      else Inr (fst st))"

text \<open>Lines 130 to 201: the flag starts as \<^verbatim>\<open>False\<close>.\<close>

definition refine_output ::
  "'z maskclip_head_scheme \<Rightarrow> real tensor4 \<Rightarrow> real tensor3 option \<Rightarrow> real tensor2 option \<Rightarrow>
   error + real tensor4" where
  "refine_output self output k cls_token =
     ebind (gating self output cls_token) (\<lambda>gated.
     ebind (voting self (gated, False) k) (\<lambda>st.
       background self st))"

subsection \<open>\<^verbatim>\<open>load_visual_projs\<close>\<close>

text \<open>\<^verbatim>\<open>sub in s\<close> for two strings.\<close>

primrec contains :: "string \<Rightarrow> string \<Rightarrow> bool" where
  "contains sub [] = (sub = [])"
| "contains sub (c # cs) = (take (length sub) (c # cs) = sub \<or> contains sub cs)"

text \<open>
  \<^verbatim>\<open>t[:, :, None, None]\<close> (line 68): two full slices, then two new axes of size 1. A
  tensor of rank below 2 has too few axes for the slices. The new axes stand behind the
  second axis whatever the rank is, and the elements stay as they are.
\<close>

definition expand_weight :: "ntensor \<Rightarrow> error + ntensor" where
  "expand_weight t =
     (if length (shape t) < 2 then Inl IndexError
      else Inr (t\<lparr>shape := take 2 (shape t) @ [1, 1] @ drop 2 (shape t)\<rparr>))"

text \<open>The loop of lines 66 to 68 over the keys of one state dict.\<close>

fun expand_weights :: "state_dict \<Rightarrow> error + state_dict" where
  "expand_weights [] = Inr []"
| "expand_weights ((key, t) # rest) =
     (if contains ''weight'' key
      then ebind (expand_weight t) (\<lambda>t'. ebind (expand_weights rest) (\<lambda>r. Inr ((key, t') # r)))
      else ebind (expand_weights rest) (\<lambda>r. Inr ((key, t) # r)))"

text \<open>
  \<^verbatim>\<open>module.load_state_dict(state_dict)\<close> of torch, which is strict by default: it raises
  RuntimeError on a missing key, on an unexpected key and on a tensor whose shape differs
  from the parameter's.
\<close>

definition expected_params :: "'z conv2d_module_scheme \<Rightarrow> (string \<times> nat list) list" where
  "expected_params m =
     (''weight'', [out_channels m, in_channels m, 1, 1]) #
     (case bias m of None \<Rightarrow> [] | Some b \<Rightarrow> [(''bias'', [out_channels m])])"

definition load_state_dict ::
  "'z conv2d_module_scheme \<Rightarrow> state_dict \<Rightarrow> error + 'z conv2d_module_scheme" where
  "load_state_dict m sd =
     (if list_all (\<lambda>(key, shp). (case map_of sd key of None \<Rightarrow> False | Some t \<Rightarrow> shape t = shp))
           (expected_params m) \<and>
         list_all (\<lambda>(key, t). key \<in> set (map fst (expected_params m))) sd
      then Inr (m\<lparr>weight := the (map_of sd ''weight''),
                  bias := (case bias m of None \<Rightarrow> None | Some b \<Rightarrow> map_of sd ''bias'')\<rparr>)
      else Inl RuntimeError)"

text \<open>
  The loop of lines 63 to 69. \<open>loaded\<close> is the dict \<^verbatim>\<open>torch.load\<close> returned: a state
  dict for each attribute name.
\<close>

fun load_projs ::
  "(string \<rightharpoonup> state_dict) \<Rightarrow> string list \<Rightarrow> 'z maskclip_head_scheme \<Rightarrow>
   error + 'z maskclip_head_scheme" where
  "load_projs loaded [] self = Inr self"
| "load_projs loaded (attr # attrs) self =
     (case modules self attr of
        None \<Rightarrow> Inl AttributeError
      | Some current_attr \<Rightarrow>
          (case loaded attr of
             None \<Rightarrow> Inl KeyError
           | Some state_dict \<Rightarrow>
               ebind (expand_weights state_dict) (\<lambda>state_dict.
               ebind (load_state_dict current_attr state_dict) (\<lambda>m.
                 load_projs loaded attrs (self\<lparr>modules := (modules self)(attr \<mapsto> m)\<rparr>)))))"

text \<open>Line 62: the attributes to load.\<close>

definition proj_attrs :: "'z maskclip_head_scheme \<Rightarrow> string list" where
  "proj_attrs self =
     (if vit self then [''proj''] else [''q_proj'', ''k_proj'', ''v_proj'', ''c_proj''])"

text \<open>Lines 60 to 70.\<close>

definition load_visual_projs ::
  "'z maskclip_head_scheme \<Rightarrow> (string \<rightharpoonup> state_dict) \<Rightarrow> error + 'z maskclip_head_scheme" where
  "load_visual_projs self loaded = load_projs loaded (proj_attrs self) self"

subsection \<open>\<^verbatim>\<open>forward\<close>\<close>

text \<open>
  Calling a projection: \<^verbatim>\<open>F.conv2d\<close> with the module's weight and bias. The weight
  of shape \<open>[out_channels, in_channels, 1, 1]\<close> holds entry \<open>(oc, i)\<close> at place
  \<open>oc * in_channels + i\<close> of its elements.
\<close>

definition weight4 :: "'z conv2d_module_scheme \<Rightarrow> real tensor4" where
  "weight4 m =
     \<lparr>dimN = out_channels m, dimC = in_channels m, dimH = 1, dimW = 1,
      elem4 = \<lambda>oc i dy dx. data (weight m) ! (oc * in_channels m + i)\<rparr>"

definition call_module ::
  "'z maskclip_head_scheme \<Rightarrow> string \<Rightarrow> real tensor4 \<Rightarrow> error + real tensor4" where
  "call_module self name x =
     (case modules self name of
        None \<Rightarrow> Inl AttributeError
      | Some m \<Rightarrow> conv2d x (weight4 m) (map_option data (bias m)))"

text \<open>
  The value \<^verbatim>\<open>self._transform_inputs(inputs)\<close> returns (the method belongs to the base
  class): one feature map, the list \<^verbatim>\<open>[x, q, k, v]\<close>, or the list \<^verbatim>\<open>[x, cls_token]\<close>.
\<close>

datatype inputs =
  Feat "real tensor4"
| FeatQKV "real tensor4" "real tensor3" "real tensor3" "real tensor4"
| FeatCls "real tensor4" "real tensor2"

text \<open>
  Lines 88 to 110, attention pooling. \<^verbatim>\<open>F.multi_head_attention_forward\<close> is a function
  of torch and a parameter \<open>mha\<close> here: it gets the head (for the weights, the number of
  heads and the mode) and the sequence of shape (tokens, samples, channels). The view of
  line 89 raises when \<open>N * C = 0\<close>, the one of line 110 unless the sequence returned has
  \<open>H * W + 1\<close> tokens for \<open>N\<close> samples and there is a position.
\<close>

definition attention_pool ::
  "'z maskclip_head_scheme \<Rightarrow> ('z maskclip_head_scheme \<Rightarrow> real tensor3 \<Rightarrow> error + real tensor3) \<Rightarrow>
   real tensor4 \<Rightarrow> error + real tensor4" where
  "attention_pool self mha x =
     (if dimN x * dimC x = 0 \<or> dimH x * dimW x = 0 then Inl RuntimeError
      else
        ebind (mha self
          \<lparr>d0 = dimH x * dimW x + 1, d1 = dimN x, d2 = dimC x,
           elem3 = \<lambda>l n c.
             if l = 0
             then sum_list (map (\<lambda>p. elem3 (to_tokens x) n p c) [0..<dimH x * dimW x])
                  / real (dimH x * dimW x)
             else elem3 (to_tokens x) n (l - 1) c\<rparr>) (\<lambda>y.
        if d0 y = dimH x * dimW x + 1 \<and> d1 y = dimN x
        then Inr \<lparr>dimN = dimN x, dimC = d2 y, dimH = dimH x, dimW = dimW x,
                  elem4 = \<lambda>n c h w. elem3 y (1 + (h * dimW x + w)) n c\<rparr>
        else Inl RuntimeError))"

text \<open>
  Lines 73 to 117: the embedding feature, the key tensor and the class token that
  \<^verbatim>\<open>forward\<close> hands on.
\<close>

definition visual_projector ::
  "'z maskclip_head_scheme \<Rightarrow> ('z maskclip_head_scheme \<Rightarrow> real tensor3 \<Rightarrow> error + real tensor3) \<Rightarrow>
   inputs \<Rightarrow> error + (real tensor4 \<times> real tensor3 option \<times> real tensor2 option)" where
  "visual_projector self mha inp =
     (if vit self then
        (case inp of
           Feat x \<Rightarrow> ebind (call_module self ''proj'' x) (\<lambda>feat. Inr (feat, None, None))
         | FeatQKV x q k v \<Rightarrow>
             ebind (call_module self ''proj'' v) (\<lambda>feat. Inr (feat, Some k, None))
         | FeatCls x cls_token \<Rightarrow>
             ebind (call_module self ''proj'' x) (\<lambda>feat.
             ebind (call_module self ''proj'' (unsqueeze_hw cls_token)) (\<lambda>c.
             ebind (squeeze_hw c) (\<lambda>cls_token. Inr (feat, None, Some cls_token)))))
      else
        (case inp of
           Feat x \<Rightarrow>
             if attn_pooling self
             then ebind (attention_pool self mha x) (\<lambda>feat. Inr (feat, None, None))
             else
               ebind (call_module self ''q_proj'' x) (\<lambda>q.
               ebind (call_module self ''k_proj'' x) (\<lambda>k.
               ebind (call_module self ''v_proj'' x) (\<lambda>v.
               ebind (call_module self ''c_proj'' v) (\<lambda>feat.
                 Inr (feat, Some (to_tokens k), None)))))
         | FeatQKV x q k v \<Rightarrow> Inl (if attn_pooling self then AttributeError else TypeError)
         | FeatCls x cls_token \<Rightarrow> Inl (if attn_pooling self then AttributeError else TypeError)))"

text \<open>
  Lines 72 to 122. Refinement is modelled on maps of real numbers: a map with a NaN that
  reaches it ends the model with \<open>NonFinite\<close>.
\<close>

definition forward ::
  "'z maskclip_head_scheme \<Rightarrow> ('z maskclip_head_scheme \<Rightarrow> real tensor3 \<Rightarrow> error + real tensor3) \<Rightarrow>
   inputs \<Rightarrow> error + fl tensor4" where
  "forward self mha inp =
     ebind (visual_projector self mha inp) (\<lambda>(feat, k, cls_token).
     ebind (cls_seg self feat) (\<lambda>output.
       if \<not> training self then
         (if all_finite4 output
          then ebind (refine_output self (map4d real_of output) k cls_token)
                 (\<lambda>output. Inr (map4d Fin output))
          else Inl NonFinite)
       else Inr output))"

subsection \<open>The confidence of a class, in the words of the specification\<close>

text \<open>
  The sharpened-softmax confidence of class \<open>c\<close> at a pixel is the softmax over the
  classes of the logits times 100; the confidence of a channel for a sample is the largest
  one over all positions.
\<close>

definition confidence :: "real tensor4 \<Rightarrow> nat \<Rightarrow> nat \<Rightarrow> nat \<Rightarrow> nat \<Rightarrow> real" where
  "confidence output n c h w =
     exp (100 * elem4 output n c h w) / (\<Sum>j<dimC output. exp (100 * elem4 output n j h w))"

definition max_confidence :: "real tensor4 \<Rightarrow> nat \<Rightarrow> nat \<Rightarrow> real" where
  "max_confidence output n c =
     Max ((\<lambda>(h, w). confidence output n c h w) ` ({..<dimH output} \<times> {..<dimW output}))"

subsection \<open>The classifier, in the words of the specification\<close>

text \<open>
  The feature vector of a pixel is L2-normalized along the channel axis, and the logit of
  a category is the inner product of the normalized vector with the row of the category
  in the table of text embeddings.
\<close>

definition pixel :: "real tensor4 \<Rightarrow> nat \<Rightarrow> nat \<Rightarrow> nat \<Rightarrow> real list" where
  "pixel feat n h w = map (\<lambda>c. elem4 feat n c h w) [0..<dimC feat]"

definition l2_norm :: "real list \<Rightarrow> real" where
  "l2_norm v = sqrt (\<Sum>x\<leftarrow>v. x\<^sup>2)"

definition l2_normalized :: "real list \<Rightarrow> fl list" where
  "l2_normalized v = map (\<lambda>x. fl_div x (l2_norm v)) v"

definition embedding :: "real tensor2 \<Rightarrow> nat \<Rightarrow> real list" where
  "embedding table c = map (elem2 table c) [0..<cols table]"

definition inner_product :: "fl list \<Rightarrow> real list \<Rightarrow> fl" where
  "inner_product u v = sum_list (map2 (\<lambda>a b. a * Fin b) u v)"

subsection \<open>Checkpoints of linear layers\<close>

text \<open>
  A state dict that stores the projection \<open>m\<close> as a linear layer: the keys are those of
  the module's parameters, each once; the weight is a matrix of shape
  \<open>[out_channels, in_channels]\<close> and the bias, when the module has one, a vector of
  \<open>out_channels\<close> entries.
\<close>

definition stored_linear :: "'z conv2d_module_scheme \<Rightarrow> state_dict \<Rightarrow> bool" where
  "stored_linear m sd =
     (distinct (map fst sd) \<and> set (map fst sd) = set (map fst (expected_params m)) \<and>
      (case map_of sd ''weight'' of
         None \<Rightarrow> False
       | Some t \<Rightarrow> shape t = [out_channels m, in_channels m]) \<and>
      (case bias m of
         None \<Rightarrow> True
       | Some b \<Rightarrow> (case map_of sd ''bias'' of
                      None \<Rightarrow> False
                    | Some t \<Rightarrow> shape t = [out_channels m])))"

subsection \<open>Concrete inputs\<close>

text \<open>The inputs at which the theorems below are evaluated.\<close>

definition matrix_of :: "'a list list \<Rightarrow> 'a tensor2" where
  "matrix_of rs =
     \<lparr>rows = length rs, cols = (case rs of [] \<Rightarrow> 0 | r # _ \<Rightarrow> length r),
      elem2 = \<lambda>i j. rs ! i ! j\<rparr>"

text \<open>Five text categories with embeddings of two channels.\<close>

definition ex_embeddings :: "real tensor2" where
  "ex_embeddings = matrix_of [[1, 0], [0, 1], [1, 1], [0, 0], [- 1, 0]]"

text \<open>
  A head of the transformer variant in evaluation mode, with the constructor's default
  options and no projection module.
\<close>

definition ex_head :: maskclip_head where
  "ex_head =
     \<lparr>text_categories = 5, text_channels = 2, num_classes = 5,
      text_embeddings = ex_embeddings, vit = True, modules = Map.empty,
      bg_thresh = 0, num_vote = 0, vote_thresh = init_vote_thresh (Scalar 0) 0,
      topk_text = 0, cls_thresh = 0, attn_pooling = False, num_heads = 32,
      training = False\<rparr>"

text \<open>One sample of one pixel with five logits, and its class token.\<close>

definition ex_logits :: "real tensor4" where
  "ex_logits =
     \<lparr>dimN = 1, dimC = 5, dimH = 1, dimW = 1,
      elem4 = \<lambda>n c h w. [3 / 10, 1 / 10, 2 / 10, 0, 1 / 10] ! c\<rparr>"

definition ex_cls_token :: "real tensor2" where
  "ex_cls_token = matrix_of [[2, 1]]"

text \<open>A key tensor for one sample of one pixel.\<close>

definition ex_key :: "real tensor3" where
  "ex_key = \<lparr>d0 = 1, d1 = 1, d2 = 1, elem3 = \<lambda>n p c. 1\<rparr>"

text \<open>One sample of one pixel with two equal logits.\<close>

definition ex_flat :: "real tensor4" where
  "ex_flat = \<lparr>dimN = 1, dimC = 2, dimH = 1, dimW = 1, elem4 = \<lambda>n c h w. 0\<rparr>"

text \<open>
  A head with one nominal class and three text categories, and two maps for it, each of
  one sample of one pixel with three logits.
\<close>

definition ex_surplus_head :: maskclip_head where
  "ex_surplus_head =
     ex_head\<lparr>text_categories := 3, num_classes := 1,
             text_embeddings := matrix_of [[1, 0], [0, 1], [1, 1]]\<rparr>"

definition ex_logits3 :: "real tensor4" where
  "ex_logits3 =
     \<lparr>dimN = 1, dimC = 3, dimH = 1, dimW = 1, elem4 = \<lambda>n c h w. [3 / 10, 1 / 10, 2 / 10] ! c\<rparr>"

definition ex_flat3 :: "real tensor4" where
  "ex_flat3 = \<lparr>dimN = 1, dimC = 3, dimH = 1, dimW = 1, elem4 = \<lambda>n c h w. 0\<rparr>"

text \<open>
  A batch of two samples whose class tokens both rank the categories 0 and 1 highest, with
  the embeddings that make them do so.
\<close>

definition ex_pair_head :: maskclip_head where
  "ex_pair_head =
     ex_head\<lparr>topk_text := 2,
             text_embeddings := matrix_of [[1, 0], [0, 1], [- 1, - 1], [- 1, 0], [0, - 1]]\<rparr>"

definition ex_pair_logits :: "real tensor4" where
  "ex_pair_logits =
     \<lparr>dimN = 2, dimC = 5, dimH = 1, dimW = 1,
      elem4 = \<lambda>n c h w. [[3 / 10, 1 / 10, 2 / 10, 0, 1 / 10],
                          [1 / 10, 3 / 10, 0, 2 / 10, 1 / 10]] ! n ! c\<rparr>"

definition ex_pair_tokens :: "real tensor2" where
  "ex_pair_tokens = matrix_of [[2, 1], [1, 2]]"

text \<open>
  A head built with \<^verbatim>\<open>num_vote=2\<close> and the default \<^verbatim>\<open>vote_thresh=0.\<close>: the constructor
  stores the list it makes of the number.
\<close>

definition ex_vote_head :: maskclip_head where
  "ex_vote_head = ex_head\<lparr>num_vote := 2, vote_thresh := init_vote_thresh (Scalar 0) 2\<rparr>"

text \<open>
  An embedding feature map of one sample, two channels and two pixels: the vector of the
  left pixel is \<open>(1, 0)\<close>, the one of the right pixel is \<open>(0, 0)\<close>.
\<close>

definition ex_feat :: "real tensor4" where
  "ex_feat =
     \<lparr>dimN = 1, dimC = 2, dimH = 1, dimW = 2, elem4 = \<lambda>n c h w. [[1, 0], [0, 0]] ! c ! w\<rparr>"

text \<open>
  A head of the transformer variant with a projection from two channels to one, and two
  checkpoints for it: the weight as the matrix \<open>[[1, 2]]\<close>, and the same weight expanded
  to shape \<open>[1, 2, 1, 1]\<close> beforehand.
\<close>

definition ex_proj :: conv2d_module where
  "ex_proj =
     \<lparr>in_channels = 2, out_channels = 1,
      weight = \<lparr>shape = [1, 2, 1, 1], data = [0, 0]\<rparr>, bias = None\<rparr>"

definition ex_vit_head :: maskclip_head where
  "ex_vit_head = ex_head\<lparr>modules := [''proj'' \<mapsto> ex_proj]\<rparr>"

definition ex_loaded_2d :: "string \<rightharpoonup> state_dict" where
  "ex_loaded_2d = [''proj'' \<mapsto> [(''weight'', \<lparr>shape = [1, 2], data = [1, 2]\<rparr>)]]"

definition ex_loaded_4d :: "string \<rightharpoonup> state_dict" where
  "ex_loaded_4d = [''proj'' \<mapsto> [(''weight'', \<lparr>shape = [1, 2, 1, 1], data = [1, 2]\<rparr>)]]"

text \<open>
  A head of the transformer variant in training mode whose projection is the identity on
  two channels, and a stand-in for torch's attention, which this variant never calls.
\<close>

definition ex_train_head :: maskclip_head where
  "ex_train_head =
     ex_head\<lparr>modules := [''proj'' \<mapsto>
                 \<lparr>in_channels = 2, out_channels = 2,
                  weight = \<lparr>shape = [2, 2, 1, 1], data = [1, 0, 0, 1]\<rparr>, bias = None\<rparr>],
             training := True\<rparr>"

definition ex_mha :: "maskclip_head \<Rightarrow> real tensor3 \<Rightarrow> error + real tensor3" where
  "ex_mha self x = Inr x"

section \<open>Properties\<close>

subsection \<open>Options that a stage does not read\<close>

lemma topk_gate_cls_thresh:
  "topk_gate (self\<lparr>cls_thresh := t\<rparr>) output ct = topk_gate self output ct"
  by (simp add: topk_gate_def Let_def split: option.split)

lemma voting_cls_thresh: "voting (self\<lparr>cls_thresh := t\<rparr>) st k = voting self st k"
  by (simp add: voting_def Let_def split: option.split)

lemma background_cls_thresh: "background (self\<lparr>cls_thresh := t\<rparr>) st = background self st"
  by (simp add: background_def Let_def)

lemma refine_output_cls_thresh:
  "0 < topk_text self \<Longrightarrow>
   refine_output (self\<lparr>cls_thresh := t\<rparr>) output k ct = refine_output self output k ct"
  by (simp add: refine_output_def gating_def topk_gate_cls_thresh voting_cls_thresh
      background_cls_thresh)

subsection \<open>The gates exclude each other\<close>

text \<open>
  Claim C6. At most one of the two gates runs, and top-k gating comes first: with
  \<open>topk_text > 0\<close> the gating step is the top-k gate, and the result of \<open>refine_output\<close>
  is the same for every value of \<open>cls_thresh\<close>, so the confidence gate has not run. The
  confidence gate runs only when \<open>topk_text\<close> is not positive and \<open>cls_thresh\<close> is; when
  neither is positive the map passes unchanged.
\<close>

theorem gating_precedence:
  "(0 < topk_text self \<longrightarrow>
      gating self output ct = topk_gate self output ct \<and>
      refine_output (self\<lparr>cls_thresh := t\<rparr>) output k ct = refine_output self output k ct) \<and>
   (\<not> 0 < topk_text self \<and> 0 < cls_thresh self \<longrightarrow>
      gating self output ct = conf_gate self output) \<and>
   (\<not> 0 < topk_text self \<and> \<not> 0 < cls_thresh self \<longrightarrow> gating self output ct = Inr output)"
  by (simp add: refine_output_cls_thresh) (simp add: gating_def)

theorem gating_precedence_witness:
  "gating (ex_head\<lparr>topk_text := 2, cls_thresh := 1 / 2\<rparr>) ex_logits (Some ex_cls_token) =
     topk_gate (ex_head\<lparr>topk_text := 2, cls_thresh := 1 / 2\<rparr>) ex_logits (Some ex_cls_token) \<and>
   refine_output (ex_head\<lparr>topk_text := 2, cls_thresh := 1 / 2\<rparr>) ex_logits None (Some ex_cls_token) =
     refine_output (ex_head\<lparr>topk_text := 2\<rparr>) ex_logits None (Some ex_cls_token)"
  using gating_precedence [of "ex_head\<lparr>topk_text := 2\<rparr>" ex_logits "Some ex_cls_token" "1 / 2" None]
    gating_precedence [of "ex_head\<lparr>topk_text := 2, cls_thresh := 1 / 2\<rparr>" ex_logits "Some ex_cls_token"]
  by (simp add: ex_head_def)

subsection \<open>Voting\<close>

text \<open>
  Claim C7. With \<open>num_vote = 0\<close> the voting stage returns the map and the flag it was
  given, whatever the key tensor is, and \<open>refine_output\<close> is gating followed by
  background synthesis.
\<close>

theorem voting_noop:
  "num_vote self = 0 \<Longrightarrow>
     voting self (output, output2logits) k = Inr (output, output2logits) \<and>
     refine_output self output k cls_token =
       ebind (gating self output cls_token) (\<lambda>gated. background self (gated, False))"
  by (simp add: voting_def refine_output_def split: option.split)

theorem voting_noop_witness:
  "voting ex_head (ex_logits, False) (Some ex_key) = Inr (ex_logits, False)"
  using voting_noop [of ex_head ex_logits False "Some ex_key"] by (simp add: ex_head_def)

subsection \<open>Confidence gating\<close>

lemma sum_list_map_upt0: "sum_list (map f [0..<n]) = (\<Sum>i<n. f i)"
  by (simp add: interv_sum_list_conv_sum_set_nat lessThan_atLeast0)

lemma maxl_Max: "xs \<noteq> [] \<Longrightarrow> maxl xs = Max (set xs)"
  by (induction xs rule: maxl.induct) (auto simp: max_def simp del: Max_less_iff)

lemma softmax100_elem: "elem4 (softmax100 t) n c h w = confidence t n c h w"
  by (simp add: softmax100_def softmax_dim1_def scale4_def confidence_def sum_list_map_upt0 mult.commute)

lemma softmax100_dims [simp]:
  "dimN (softmax100 t) = dimN t" "dimC (softmax100 t) = dimC t"
  "dimH (softmax100 t) = dimH t" "dimW (softmax100 t) = dimW t"
  by (simp_all add: softmax100_def softmax_dim1_def scale4_def)

lemma positions_set:
  "set (map (\<lambda>i. f (i div W) (i mod W)) [0..<H * W]) = (\<lambda>(h, w). f h w) ` ({..<H} \<times> {..<W::nat})"
proof (intro set_eqI iffI)
  fix x assume "x \<in> set (map (\<lambda>i. f (i div W) (i mod W)) [0..<H * W])"
  then obtain i where i: "i < H * W" "x = f (i div W) (i mod W)" by auto
  then have "0 < W" by (cases W) auto
  with i have "i div W < H" "i mod W < W"
    by (simp_all add: less_mult_imp_div_less mult.commute)
  with i show "x \<in> (\<lambda>(h, w). f h w) ` ({..<H} \<times> {..<W})" by auto
next
  fix x assume "x \<in> (\<lambda>(h, w). f h w) ` ({..<H} \<times> {..<W})"
  then obtain h w where hw: "h < H" "w < W" "x = f h w" by auto
  have "h * W + w < H * W"
  proof -
    have "h * W + w < h * W + W" using hw by simp
    also have "\<dots> = Suc h * W" by simp
    also have "\<dots> \<le> H * W" using hw by (intro mult_le_mono1) simp
    finally show ?thesis .
  qed
  moreover have "(h * W + w) div W = h" "(h * W + w) mod W = w" using hw by simp_all
  ultimately show "x \<in> set (map (\<lambda>i. f (i div W) (i mod W)) [0..<H * W])"
    using hw by (auto simp: image_iff intro!: bexI [of _ "h * W + w"])
qed

lemma max_cls_conf_softmax100:
  assumes "0 < dimH t" "0 < dimW t"
  shows "max_cls_conf (softmax100 t) n c = max_confidence t n c"
proof -
  have "map (\<lambda>i. elem3 (to_tokens (softmax100 t)) n i c) [0..<dimH t * dimW t] \<noteq> []"
    using assms by simp
  then show ?thesis
    unfolding max_cls_conf_def max_confidence_def
    by (simp add: maxl_Max to_tokens_def softmax100_elem positions_set del: set_map)
qed

lemma conf_gate_dims:
  "conf_gate self output = Inr g \<Longrightarrow>
   dimN g = dimN output \<and> dimC g = dimC output \<and> dimH g = dimH output \<and> dimW g = dimW output"
  by (auto simp: conf_gate_def Let_def split: if_splits)

text \<open>
  Claim C5. With \<open>topk_text\<close> not positive and \<open>cls_thresh > 0\<close>, on a map that has a sample, a
  channel and a position, gating returns a map of the same shape in which a channel whose
  largest sharpened-softmax confidence over all positions of a sample is below
  \<open>cls_thresh\<close> holds \<open>-100\<close> at every position of that sample, and every other channel
  is unchanged. When voting and background synthesis are off, that map is the result of
  \<open>refine_output\<close>.
\<close>

theorem confidence_gate:
  assumes "topk_text self \<le> 0" and "0 < cls_thresh self"
    and "0 < dimN output" and "0 < dimC output" and "0 < dimH output" and "0 < dimW output"
  shows "\<exists>g. gating self output ct = Inr g \<and>
           dimN g = dimN output \<and> dimC g = dimC output \<and>
           dimH g = dimH output \<and> dimW g = dimW output \<and>
           (\<forall>n<dimN output. \<forall>c<dimC output. \<forall>h<dimH output. \<forall>w<dimW output.
              elem4 g n c h w =
                (if max_confidence output n c < cls_thresh self then - 100
                 else elem4 output n c h w)) \<and>
           ((k = None \<or> num_vote self \<le> 0) \<and> text_categories self \<le> num_classes self \<and>
            bg_thresh self \<le> 0 \<longrightarrow> refine_output self output k ct = Inr g)"
proof -
  define g where "g = output\<lparr>elem4 := \<lambda>n c h w.
      if max_cls_conf (softmax100 output) n c < cls_thresh self then - 100
      else elem4 output n c h w\<rparr>"
  have gate: "gating self output ct = Inr g"
    using assms by (simp add: gating_def conf_gate_def Let_def g_def)
  have conf: "max_cls_conf (softmax100 output) n c = max_confidence output n c" for n c
    using assms by (simp add: max_cls_conf_softmax100)
  have later: "refine_output self output k ct = Inr g"
    if "(k = None \<or> num_vote self \<le> 0) \<and> text_categories self \<le> num_classes self \<and>
        bg_thresh self \<le> 0"
    using that gate by (auto simp: refine_output_def voting_def background_def split: option.split)
  show ?thesis
    using gate later by (intro exI [of _ g]) (simp add: g_def conf)
qed

lemma max_confidence_ex_flat: "max_confidence ex_flat n c = 1 / 2"
  by (simp add: max_confidence_def confidence_def ex_flat_def lessThan_Suc numeral_2_eq_2)

theorem confidence_gate_witness:
  "elem4 (projr (gating (ex_head\<lparr>cls_thresh := 3 / 5\<rparr>) ex_flat None)) 0 1 0 0 = - 100 \<and>
   elem4 (projr (gating (ex_head\<lparr>cls_thresh := 1 / 2\<rparr>) ex_flat None)) 0 1 0 0 = 0 \<and>
   refine_output (ex_head\<lparr>cls_thresh := 3 / 5\<rparr>) ex_flat None None =
     gating (ex_head\<lparr>cls_thresh := 3 / 5\<rparr>) ex_flat None"
proof -
  have dims: "0 < dimN ex_flat" "0 < dimC ex_flat" "0 < dimH ex_flat" "0 < dimW ex_flat"
    "(1::nat) < dimC ex_flat"
    by (simp_all add: ex_flat_def)
  have a: "topk_text (ex_head\<lparr>cls_thresh := 3 / 5\<rparr>) \<le> 0" "0 < cls_thresh (ex_head\<lparr>cls_thresh := 3 / 5\<rparr>)"
    and b: "topk_text (ex_head\<lparr>cls_thresh := 1 / 2\<rparr>) \<le> 0" "0 < cls_thresh (ex_head\<lparr>cls_thresh := 1 / 2\<rparr>)"
    and off: "num_vote (ex_head\<lparr>cls_thresh := 3 / 5\<rparr>) \<le> 0"
      "text_categories (ex_head\<lparr>cls_thresh := 3 / 5\<rparr>) \<le> num_classes (ex_head\<lparr>cls_thresh := 3 / 5\<rparr>)"
      "bg_thresh (ex_head\<lparr>cls_thresh := 3 / 5\<rparr>) \<le> 0"
    by (simp_all add: ex_head_def)
  from confidence_gate [OF a dims(1-4), of None None] off
  obtain g where g: "gating (ex_head\<lparr>cls_thresh := 3 / 5\<rparr>) ex_flat None = Inr g"
      "\<forall>n<dimN ex_flat. \<forall>c<dimC ex_flat. \<forall>h<dimH ex_flat. \<forall>w<dimW ex_flat.
         elem4 g n c h w = (if max_confidence ex_flat n c < 3 / 5 then - 100 else elem4 ex_flat n c h w)"
      "refine_output (ex_head\<lparr>cls_thresh := 3 / 5\<rparr>) ex_flat None None = Inr g"
    by auto
  from confidence_gate [OF b dims(1-4), of None None]
  obtain g' where g': "gating (ex_head\<lparr>cls_thresh := 1 / 2\<rparr>) ex_flat None = Inr g'"
      "\<forall>n<dimN ex_flat. \<forall>c<dimC ex_flat. \<forall>h<dimH ex_flat. \<forall>w<dimW ex_flat.
         elem4 g' n c h w = (if max_confidence ex_flat n c < 1 / 2 then - 100 else elem4 ex_flat n c h w)"
    by auto
  have "elem4 g 0 1 0 0 = - 100"
    using g(2) dims by (simp add: max_confidence_ex_flat)
  moreover have "elem4 g' 0 1 0 0 = elem4 ex_flat 0 1 0 0"
    using g'(2) dims by (simp add: max_confidence_ex_flat)
  moreover have "elem4 ex_flat 0 1 0 0 = 0"
    by (simp add: ex_flat_def)
  ultimately show ?thesis
    using g(1,3) g'(1) by simp
qed

subsection \<open>Shapes through the stages\<close>

lemma upt_small:
  "[0..<1] = [0]" "[0..<2] = [0, 1]" "[0..<3] = [0, 1, 2]" "[0..<4] = [0, 1, 2, 3]"
  "[0..<5] = [0, 1, 2, 3, 4]"
  by (simp_all add: upt_conv_Cons eval_nat_numeral)

lemma topk_gate_dims:
  "topk_gate self output ct = Inr g \<Longrightarrow>
   dimN g = dimN output \<and> dimC g = dimC output \<and> dimH g = dimH output \<and> dimW g = dimW output"
  by (cases ct; cases "matmul2 (the ct) (transpose2 (text_embeddings self))")
     (auto simp: topk_gate_def Let_def new_full_def topk_def split: if_splits)

lemma gating_dims:
  "gating self output ct = Inr g \<Longrightarrow>
   dimN g = dimN output \<and> dimC g = dimC output \<and> dimH g = dimH output \<and> dimW g = dimW output"
  by (auto simp: gating_def split: if_splits dest: topk_gate_dims conf_gate_dims)

lemma ebind_Inr: "ebind x f = Inr y \<longleftrightarrow> (\<exists>z. x = Inr z \<and> f z = Inr y)"
  by (cases x) auto

lemma from_tokens_dims:
  "from_tokens N C H W t = Inr r \<Longrightarrow> dimN r = N \<and> dimC r = C \<and> dimH r = H \<and> dimW r = W"
  by (auto simp: from_tokens_def split: if_splits)

lemma voting_dims:
  "voting self (g, fl) k = Inr (m, fl') \<Longrightarrow>
   dimN m = dimN g \<and> dimC m = dimC g \<and> dimH m = dimH g \<and> dimW m = dimW g"
  by (cases k) (auto simp: voting_def Let_def ebind_Inr dest!: from_tokens_dims split: if_splits)

subsection \<open>Background synthesis\<close>

lemma max_dim1_surplus:
  assumes "dimC m = nc + 2"
  shows "max_dim1 (slice_from nc m) =
           Inr (m\<lparr>dimC := 1, elem4 := \<lambda>n c h w. max (elem4 m n nc h w) (elem4 m n (nc + 1) h w)\<rparr>)"
proof -
  have "[0..<2] = [0, Suc 0]" by (simp add: upt_rec numeral_2_eq_2)
  then show ?thesis using assms by (simp add: max_dim1_def slice_from_def)
qed

text \<open>
  Claim C4, as amended. Let \<open>text_categories = num_classes + 2\<close> and let the map have
  \<open>text_categories\<close> channels. Whenever gating and voting return, with the map \<open>m\<close>,
  \<open>refine_output\<close> returns a map of \<open>num_classes + 1\<close> channels whose channel 0 is, at every
  pixel, the larger of the two extra-category values of \<open>m\<close>, followed by the first
  \<open>num_classes\<close> channels of \<open>m\<close>. \<open>m\<close> is the map of raw logits when neither gate and no
  voting is enabled.
\<close>

theorem background_from_surplus:
  assumes "text_categories self = num_classes self + 2"
    and "dimC output = text_categories self"
    and "gating self output ct = Inr g"
    and "voting self (g, False) k = Inr (m, fl)"
  shows "\<exists>r. refine_output self output k ct = Inr r \<and>
           dimN r = dimN output \<and> dimC r = num_classes self + 1 \<and>
           dimH r = dimH output \<and> dimW r = dimW output \<and>
           (\<forall>n<dimN output. \<forall>h<dimH output. \<forall>w<dimW output.
              elem4 r n 0 h w =
                max (elem4 m n (num_classes self) h w) (elem4 m n (num_classes self + 1) h w)) \<and>
           (\<forall>n<dimN output. \<forall>c<num_classes self. \<forall>h<dimH output. \<forall>w<dimW output.
              elem4 r n (Suc c) h w = elem4 m n c h w) \<and>
           (topk_text self \<le> 0 \<and> cls_thresh self \<le> 0 \<and> (k = None \<or> num_vote self \<le> 0) \<longrightarrow>
              m = output)"
proof -
  have dims: "dimN m = dimN output" "dimC m = num_classes self + 2"
      "dimH m = dimH output" "dimW m = dimW output"
    using gating_dims [OF assms(3)] voting_dims [OF assms(4)] assms(1,2) by simp_all
  have raw: "m = output"
    if "topk_text self \<le> 0 \<and> cls_thresh self \<le> 0 \<and> (k = None \<or> num_vote self \<le> 0)"
    using that assms(3,4) by (auto simp: gating_def voting_def split: option.splits)
  have "background self (m, fl) =
          cat_dim1 (m\<lparr>dimC := 1, elem4 := \<lambda>n c h w.
                       max (elem4 m n (num_classes self) h w) (elem4 m n (num_classes self + 1) h w)\<rparr>)
                   (slice_to (num_classes self) m)"
    using assms(1) by (simp add: background_def max_dim1_surplus [OF dims(2)])
  then obtain r where r: "refine_output self output k ct = Inr r"
      "dimN r = dimN m" "dimC r = num_classes self + 1" "dimH r = dimH m" "dimW r = dimW m"
      "\<And>n h w. elem4 r n 0 h w =
          max (elem4 m n (num_classes self) h w) (elem4 m n (num_classes self + 1) h w)"
      "\<And>n c h w. elem4 r n (Suc c) h w = elem4 m n c h w"
    using assms(3,4) dims by (simp add: refine_output_def cat_dim1_def slice_to_def)
  then show ?thesis using dims raw by (intro exI [of _ r]) simp
qed


theorem background_from_surplus_witness:
  "dimC (projr (refine_output ex_surplus_head ex_logits3 None None)) = 2 \<and>
   elem4 (projr (refine_output ex_surplus_head ex_logits3 None None)) 0 0 0 0 = 2 / 10"
proof -
  have "text_categories ex_surplus_head = num_classes ex_surplus_head + 2"
    and "dimC ex_logits3 = text_categories ex_surplus_head"
    and "gating ex_surplus_head ex_logits3 None = Inr ex_logits3"
    and "voting ex_surplus_head (ex_logits3, False) None = Inr (ex_logits3, False)"
    by (simp_all add: ex_surplus_head_def ex_head_def ex_logits3_def gating_def voting_def)
  from background_from_surplus [OF this]
  obtain r where "refine_output ex_surplus_head ex_logits3 None None = Inr r"
    and "dimC r = num_classes ex_surplus_head + 1"
    and "\<forall>n<dimN ex_logits3. \<forall>h<dimH ex_logits3. \<forall>w<dimW ex_logits3.
           elem4 r n 0 h w = max (elem4 ex_logits3 n (num_classes ex_surplus_head) h w)
                                 (elem4 ex_logits3 n (num_classes ex_surplus_head + 1) h w)"
    by auto
  then show ?thesis
    by (simp add: ex_surplus_head_def ex_head_def ex_logits3_def)
qed

text \<open>
  Claim C4 as stated fails once a gate has rewritten the extra channels: here the
  confidence gate suppresses every channel, so channel 0 of the result is \<open>-100\<close> while the
  larger of the two extra-category logits is 0.
\<close>

theorem background_not_raw_logits:
  "\<not> isl (refine_output (ex_surplus_head\<lparr>cls_thresh := 3 / 5\<rparr>) ex_flat3 None None) \<and>
   elem4 (projr (refine_output (ex_surplus_head\<lparr>cls_thresh := 3 / 5\<rparr>) ex_flat3 None None)) 0 0 0 0
     = - 100 \<and>
   max (elem4 ex_flat3 0 1 0 0) (elem4 ex_flat3 0 2 0 0) = 0"
  by (simp add: refine_output_def gating_def conf_gate_def voting_def background_def
      ex_surplus_head_def ex_head_def ex_flat3_def max_cls_conf_def softmax100_def softmax_dim1_def
      scale4_def to_tokens_def max_dim1_def slice_from_def slice_to_def cat_dim1_def Let_def
      upt_small)

subsection \<open>Top-k gating\<close>

text \<open>
  What lines 134 to 141 do: every sample of the map returned is a whole sample of the
  input or holds \<open>-100\<close> throughout. No channel is treated differently from another.
\<close>

lemma topk_gate_whole_samples:
  assumes "topk_gate self output ct = Inr g"
  shows "elem4 g n = elem4 output n \<or> elem4 g n = (\<lambda>c h w. - 100)"
  using assms
  by (cases ct) (auto simp: topk_gate_def Let_def ebind_Inr new_full_def split: if_splits)

text \<open>
  Claim C1 does not hold of the code. With \<open>topk_text = 2\<close> and five categories, one sample
  whose class token selects the categories 2 and 0 makes \<open>refine_output\<close> raise IndexError:
  the class index 2 is read as a sample index. For two samples whose class tokens select
  the categories 0 and 1, \<open>refine_output\<close> returns, and the channels 2 and 4, which were not
  selected, still hold their logits instead of \<open>-100\<close>.
\<close>

theorem topk_gate_indexes_samples:
  "refine_output (ex_head\<lparr>topk_text := 2\<rparr>) ex_logits None (Some ex_cls_token) = Inl IndexError \<and>
   \<not> isl (refine_output ex_pair_head ex_pair_logits None (Some ex_pair_tokens)) \<and>
   elem4 (projr (refine_output ex_pair_head ex_pair_logits None (Some ex_pair_tokens))) 0 2 0 0
     = 2 / 10 \<and>
   elem4 (projr (refine_output ex_pair_head ex_pair_logits None (Some ex_pair_tokens))) 1 4 0 0
     = 1 / 10"
  by (simp add: refine_output_def gating_def topk_gate_def voting_def background_def
      ex_head_def ex_logits_def ex_cls_token_def ex_embeddings_def
      ex_pair_head_def ex_pair_logits_def ex_pair_tokens_def
      matmul2_def transpose2_def topk_def matrix_of_def topk_row_def new_full_def upt_small)

subsection \<open>Voting with the default threshold\<close>

lemma maxl_pos: "xs \<noteq> [] \<Longrightarrow> \<forall>x\<in>set xs. 0 < x \<Longrightarrow> 0 < maxl xs"
  by (induction xs rule: maxl.induct) (auto simp: max_def)

lemma confidence_pos:
  assumes "0 < dimC t"
  shows "0 < confidence t n c h w"
proof -
  have "0 < (\<Sum>j<dimC t. exp (100 * elem4 t n j h w))"
    using assms by (intro sum_pos) auto
  then show ?thesis by (simp add: confidence_def)
qed

lemma maxl_softmax_not_neg:
  assumes "0 < dimC t"
  shows "\<not> maxl (map (elem3 (to_tokens (softmax100 t)) n p) [0..<dimC t]) < 0"
proof -
  have "0 < maxl (map (elem3 (to_tokens (softmax100 t)) n p) [0..<dimC t])"
    using assms by (intro maxl_pos) (auto simp: to_tokens_def softmax100_elem confidence_pos)
  then show ?thesis by simp
qed

lemma vote_loop_default:
  assumes "\<forall>i\<in>set js. i < length vt \<and> vt ! i = 0"
    and "d2 attn = d1 out" and "d0 attn = d0 out \<or> d0 attn = 1" and "0 < d2 out"
    and "\<forall>n p. \<not> maxl (map (elem3 out n p) [0..<d2 out]) < 0"
  shows "vote_loop vt attn js out = Inr out"
  using assms(1)
proof (induction js)
  case Nil
  then show ?case by simp
next
  case (Cons i js)
  then have i: "i < length vt" "vt ! i = 0" "vt \<noteq> []" by auto
  obtain vo where vo: "matmul3 attn out = Inr vo" "d0 vo = d0 out"
    using assms(2,3) by (auto simp: matmul3_def)
  have "out\<lparr>elem3 := \<lambda>n p c. if maxl (map (elem3 out n p) [0..<d2 out]) < vt ! i
                              then elem3 vo n p c else elem3 out n p c\<rparr> = out"
    using assms(5) i by simp
  then show ?case
    using Cons i vo assms(4) by simp
qed

lemma from_to_tokens:
  assumes "from_tokens (dimN t) (dimC t) (dimH t) (dimW t) (to_tokens t) = Inr r" and "w < dimW t"
  shows "elem4 r n c h w = elem4 t n c h w"
  using assms by (auto simp: from_tokens_def to_tokens_def split: if_splits)

text \<open>
  Claim C10. Let the head hold the threshold list the constructor makes of the default
  number 0, let \<open>num_vote > 0\<close>, and let the key tensor fit the map (a sample and a
  channel exist, the key has one token per position, and as many samples as the map or
  one). Then the list has \<open>num_vote\<close> entries and is not empty, so every iteration takes
  the branch of the partial update; no position is below the threshold, and the stage
  returns the sharpened softmax of the map it was given, with the flag set. A threshold
  list that is empty although \<open>num_vote > 0\<close> can only come from the argument \<^verbatim>\<open>[]\<close>.
\<close>

theorem default_vote_thresh:
  assumes "vote_thresh self = init_vote_thresh (Scalar 0) (num_vote self)"
    and "0 < num_vote self"
    and "0 < dimN output" and "0 < dimC output"
    and "d1 kt = dimH output * dimW output" and "d0 kt = dimN output \<or> d0 kt = 1"
  shows "length (vote_thresh self) = nat (num_vote self) \<and> vote_thresh self \<noteq> [] \<and>
         (\<exists>r. voting self (output, False) (Some kt) = Inr (r, True) \<and>
              dimN r = dimN output \<and> dimC r = dimC output \<and>
              dimH r = dimH output \<and> dimW r = dimW output \<and>
              (\<forall>n<dimN output. \<forall>c<dimC output. \<forall>h<dimH output. \<forall>w<dimW output.
                 elem4 r n c h w = elem4 (softmax100 output) n c h w)) \<and>
         (\<forall>v. init_vote_thresh v (num_vote self) = [] \<longrightarrow> v = ThreshList [])"
proof -
  let ?p = "softmax100 output"
  let ?kn = "normalize_dim1 kt"
  have vt: "vote_thresh self = replicate (nat (num_vote self)) 0"
    using assms(1) by (simp add: init_vote_thresh_def)
  have len: "length (vote_thresh self) = nat (num_vote self)" "vote_thresh self \<noteq> []"
    using vt assms(2) by auto
  obtain attn where attn: "matmul3 ?kn (transpose3 ?kn) = Inr attn"
      "d0 attn = d0 kt" "d1 attn = d1 kt" "d2 attn = d1 kt"
    by (simp add: matmul3_def transpose3_def normalize_dim1_def)
  have loop: "vote_loop (vote_thresh self) attn [0..<nat (num_vote self)] (to_tokens ?p)
                = Inr (to_tokens ?p)"
  proof (rule vote_loop_default)
    show "\<forall>i\<in>set [0..<nat (num_vote self)].
            i < length (vote_thresh self) \<and> vote_thresh self ! i = 0"
      by (simp add: vt)
    show "d2 attn = d1 (to_tokens ?p)" using attn assms(5) by (simp add: to_tokens_def)
    show "d0 attn = d0 (to_tokens ?p) \<or> d0 attn = 1" using attn assms(6) by (simp add: to_tokens_def)
    show "0 < d2 (to_tokens ?p)" using assms(4) by (simp add: to_tokens_def)
    show "\<forall>n p. \<not> maxl (map (elem3 (to_tokens ?p) n p) [0..<d2 (to_tokens ?p)]) < 0"
      using maxl_softmax_not_neg [OF assms(4)] by (simp add: to_tokens_def)
  qed
  obtain r where r: "from_tokens (dimN ?p) (dimC ?p) (dimH ?p) (dimW ?p) (to_tokens ?p) = Inr r"
    by (auto simp: from_tokens_def to_tokens_def)
  have vote: "voting self (output, False) (Some kt) = Inr (r, True)"
    using assms(2,3,4) attn(1) loop r by (simp add: voting_def Let_def)
  have dims: "dimN r = dimN output" "dimC r = dimC output" "dimH r = dimH output"
      "dimW r = dimW output"
    using from_tokens_dims [OF r] by simp_all
  have same: "elem4 r n c h w = elem4 ?p n c h w" if "w < dimW output" for n c h w
    using from_to_tokens [OF r] that by simp
  have only: "v = ThreshList []" if "init_vote_thresh v (num_vote self) = []" for v
    using that assms(2) by (cases v) (auto simp: init_vote_thresh_def)
  show ?thesis
    using len vote dims same only by auto
qed


theorem default_vote_thresh_witness:
  "vote_thresh ex_vote_head = [0, 0] \<and>
   snd (projr (voting ex_vote_head (ex_flat, False) (Some ex_key))) \<and>
   elem4 (fst (projr (voting ex_vote_head (ex_flat, False) (Some ex_key)))) 0 1 0 0 = 1 / 2"
proof -
  have "vote_thresh ex_vote_head = init_vote_thresh (Scalar 0) (num_vote ex_vote_head)"
    and "0 < num_vote ex_vote_head"
    and "0 < dimN ex_flat" and "0 < dimC ex_flat"
    and "d1 ex_key = dimH ex_flat * dimW ex_flat" and "d0 ex_key = dimN ex_flat \<or> d0 ex_key = 1"
    by (simp_all add: ex_vote_head_def ex_head_def ex_flat_def ex_key_def)
  from default_vote_thresh [OF this]
  obtain r where r: "voting ex_vote_head (ex_flat, False) (Some ex_key) = Inr (r, True)"
    "\<forall>n<dimN ex_flat. \<forall>c<dimC ex_flat. \<forall>h<dimH ex_flat. \<forall>w<dimW ex_flat.
       elem4 r n c h w = elem4 (softmax100 ex_flat) n c h w"
    by auto
  have "elem4 r 0 1 0 0 = elem4 (softmax100 ex_flat) 0 1 0 0"
    using r(2) by (simp add: ex_flat_def)
  moreover have "elem4 (softmax100 ex_flat) 0 1 0 0 = 1 / 2"
    by (simp add: softmax100_elem confidence_def ex_flat_def lessThan_Suc numeral_2_eq_2)
  moreover have "vote_thresh ex_vote_head = [0, 0]"
    by (simp add: ex_vote_head_def init_vote_thresh_def numeral_2_eq_2)
  ultimately show ?thesis using r(1) by simp
qed

subsection \<open>The classifier\<close>

lemma fl_arith:
  "Fin a + Fin b = Fin (a + b)" "NaN + x = NaN" "x + NaN = NaN"
  "Fin a * Fin b = Fin (a * b)" "NaN * x = NaN" "x * NaN = NaN" "(0::fl) = Fin 0"
  by (simp_all add: plus_fl_def times_fl_def zero_fl_def split: fl.splits)

lemma map2_same_upt:
  "map2 f (map g [0..<n]) (map h [0..<n]) = map (\<lambda>i. f (g i) (h i)) [0..<n]"
  by (simp add: zip_map_map zip_same_conv_map)

lemma l2_norm_pixel:
  "l2_norm (pixel feat n h w) = sqrt (sum_list (map (\<lambda>j. (elem4 feat n j h w)\<^sup>2) [0..<dimC feat]))"
  by (simp add: l2_norm_def pixel_def o_def)

lemma cls_seg_returns:
  assumes "dimC feat = cols (text_embeddings self)" and "0 < dimH feat" and "0 < dimW feat"
  shows "cls_seg self feat =
           Inr \<lparr>dimN = dimN feat, dimC = rows (text_embeddings self),
                dimH = dimH feat, dimW = dimW feat,
                elem4 = \<lambda>n c h w. inner_product (l2_normalized (pixel feat n h w))
                                     (embedding (text_embeddings self) c)\<rparr>"
proof -
  have one: "[0..<1] = [0]" by simp
  have "inner_product (l2_normalized (pixel feat n h w)) (embedding (text_embeddings self) c) =
          sum_list (map (\<lambda>i. fl_div (elem4 feat n i h w)
                (sqrt (sum_list (map (\<lambda>j. (elem4 feat n j h w)\<^sup>2) [0..<dimC feat]))) *
              Fin (elem2 (text_embeddings self) c i)) [0..<dimC feat])" for n c h w
    unfolding inner_product_def l2_normalized_def embedding_def l2_norm_pixel
    by (simp add: pixel_def assms(1) [symmetric] map2_same_upt o_def)
  then show ?thesis
    using assms
    by (simp add: cls_seg_def conv2d_def div_keepdim_def norm_dim1_def unsqueeze_hw_def
        map2d_def one Suc_leI)
qed


text \<open>
  Claim C8. For a feature map whose channel count is the width of the table of text
  embeddings (and which has a pixel), \<open>cls_seg\<close> returns a map of shape
  batch \<times> text_categories \<times> height \<times> width that holds, at every pixel and for every
  category, the inner product of the L2-normalized feature vector of the pixel with the
  row of the category.
\<close>

theorem cls_seg_inner_product:
  assumes "rows (text_embeddings self) = text_categories self"
    and "dimC feat = cols (text_embeddings self)" and "0 < dimH feat" and "0 < dimW feat"
  shows "\<exists>out. cls_seg self feat = Inr out \<and>
           dimN out = dimN feat \<and> dimC out = text_categories self \<and>
           dimH out = dimH feat \<and> dimW out = dimW feat \<and>
           (\<forall>n<dimN feat. \<forall>c<text_categories self. \<forall>h<dimH feat. \<forall>w<dimW feat.
              elem4 out n c h w =
                inner_product (l2_normalized (pixel feat n h w))
                  (embedding (text_embeddings self) c))"
  using assms by (simp add: cls_seg_returns)

lemma ex_feat_left: "l2_normalized (pixel ex_feat 0 0 0) = [Fin 1, Fin 0]"
  by (simp add: l2_normalized_def pixel_def l2_norm_def ex_feat_def upt_small fl_div_def)

lemma ex_feat_right: "l2_normalized (pixel ex_feat 0 0 1) = [NaN, NaN]"
  by (simp add: l2_normalized_def pixel_def l2_norm_def ex_feat_def upt_small fl_div_def)

lemma ex_embedding: "embedding (text_embeddings ex_head) 2 = [1, 1]"
  by (simp add: embedding_def ex_head_def ex_embeddings_def matrix_of_def upt_small)

theorem cls_seg_inner_product_witness:
  "dimC (projr (cls_seg ex_head ex_feat)) = 5 \<and>
   elem4 (projr (cls_seg ex_head ex_feat)) 0 2 0 0 = Fin 1"
proof -
  have "rows (text_embeddings ex_head) = text_categories ex_head"
    and "dimC ex_feat = cols (text_embeddings ex_head)" and "0 < dimH ex_feat" and "0 < dimW ex_feat"
    by (simp_all add: ex_head_def ex_embeddings_def matrix_of_def ex_feat_def)
  from cls_seg_inner_product [OF this]
  obtain out where out: "cls_seg ex_head ex_feat = Inr out" "dimC out = text_categories ex_head"
    "\<forall>n<dimN ex_feat. \<forall>c<text_categories ex_head. \<forall>h<dimH ex_feat. \<forall>w<dimW ex_feat.
       elem4 out n c h w =
         inner_product (l2_normalized (pixel ex_feat n h w)) (embedding (text_embeddings ex_head) c)"
    by auto
  have "dimN ex_feat = 1" "text_categories ex_head = 5" "dimH ex_feat = 1" "dimW ex_feat = 2"
    by (simp_all add: ex_feat_def ex_head_def)
  with out(3) have "elem4 out 0 2 0 0 =
      inner_product (l2_normalized (pixel ex_feat 0 0 0)) (embedding (text_embeddings ex_head) 2)"
    by simp
  also have "\<dots> = Fin 1"
    by (simp add: ex_feat_left ex_embedding inner_product_def fl_arith)
  finally show ?thesis using out(1,2) \<open>text_categories ex_head = 5\<close> by simp
qed

subsection \<open>The unguarded division\<close>

lemma sum_squares_zero: "(\<Sum>x\<leftarrow>v. x\<^sup>2) = 0 \<longleftrightarrow> (\<forall>x\<in>set v. x = (0::real))"
proof (induction v)
  case Nil
  then show ?case by simp
next
  case (Cons a v)
  have "0 \<le> (\<Sum>x\<leftarrow>v. x\<^sup>2)" by (rule sum_list_nonneg) auto
  then show ?case using Cons by (simp add: add_nonneg_eq_0_iff)
qed

lemma l2_norm_zero: "l2_norm v = 0 \<longleftrightarrow> (\<forall>x\<in>set v. x = 0)"
  by (simp add: l2_norm_def sum_squares_zero)

lemma inner_product_of_NaN:
  "length v = length e \<Longrightarrow>
   sum_list (map2 (\<lambda>a b. a * Fin b) (map (\<lambda>x. NaN) v) e) = (if v = [] then Fin 0 else NaN)"
  by (induction v e rule: list_induct2) (simp_all add: fl_arith)

lemma inner_product_of_Fin:
  "length v = length e \<Longrightarrow>
   \<exists>r. sum_list (map2 (\<lambda>a b. a * Fin b) (map (\<lambda>x. Fin (g x)) v) e) = Fin r"
  by (induction v e rule: list_induct2) (auto simp: fl_arith)

lemma inner_product_NaN:
  assumes "length v = length e" and "v \<noteq> []"
  shows "inner_product (l2_normalized v) e = NaN \<longleftrightarrow> (\<forall>x\<in>set v. x = 0)"
proof (cases "l2_norm v = 0")
  case True
  then have "l2_normalized v = map (\<lambda>x. NaN) v"
    by (simp add: l2_normalized_def fl_div_def)
  then have "inner_product (l2_normalized v) e = NaN"
    using assms by (simp add: inner_product_def inner_product_of_NaN)
  then show ?thesis using True by (simp add: l2_norm_zero)
next
  case False
  then have "l2_normalized v = map (\<lambda>x. Fin (x / l2_norm v)) v"
    by (simp add: l2_normalized_def fl_div_def)
  then obtain r where "inner_product (l2_normalized v) e = Fin r"
    using inner_product_of_Fin [OF assms(1), of "\<lambda>x. x / l2_norm v"]
    by (auto simp: inner_product_def)
  then show ?thesis using False by (simp add: l2_norm_zero)
qed

text \<open>
  Claim C9. \<open>cls_seg\<close> divides by the norm without a guard. On a feature map with at
  least one channel, a logit is NaN exactly when the feature vector of its pixel is zero
  in every channel: the output is a real number wherever the vector is not zero, and
  every logit of a pixel with the zero vector is NaN.
\<close>

theorem cls_seg_nan_iff_zero_pixel:
  assumes "dimC feat = cols (text_embeddings self)" and "0 < dimC feat"
    and "0 < dimH feat" and "0 < dimW feat"
  shows "\<exists>out. cls_seg self feat = Inr out \<and>
           (\<forall>n<dimN feat. \<forall>c<rows (text_embeddings self). \<forall>h<dimH feat. \<forall>w<dimW feat.
              (elem4 out n c h w = NaN) = (\<forall>j<dimC feat. elem4 feat n j h w = 0))"
proof -
  have "(inner_product (l2_normalized (pixel feat n h w)) (embedding (text_embeddings self) c) = NaN)
          = (\<forall>j<dimC feat. elem4 feat n j h w = 0)" for n c h w
    using assms(1,2) by (subst inner_product_NaN) (auto simp: pixel_def embedding_def)
  then show ?thesis
    using assms by (simp add: cls_seg_returns)
qed

theorem cls_seg_nan_witness:
  "elem4 (projr (cls_seg ex_head ex_feat)) 0 2 0 1 = NaN \<and>
   elem4 (projr (cls_seg ex_head ex_feat)) 0 2 0 0 \<noteq> NaN"
proof -
  have "dimC ex_feat = cols (text_embeddings ex_head)" and "0 < dimC ex_feat"
    and "0 < dimH ex_feat" and "0 < dimW ex_feat"
    by (simp_all add: ex_head_def ex_embeddings_def matrix_of_def ex_feat_def)
  from cls_seg_nan_iff_zero_pixel [OF this]
  obtain out where out: "cls_seg ex_head ex_feat = Inr out"
    "\<forall>n<dimN ex_feat. \<forall>c<rows (text_embeddings ex_head). \<forall>h<dimH ex_feat. \<forall>w<dimW ex_feat.
       (elem4 out n c h w = NaN) = (\<forall>j<dimC ex_feat. elem4 ex_feat n j h w = 0)"
    by auto
  have sizes: "dimN ex_feat = 1" "rows (text_embeddings ex_head) = 5" "dimH ex_feat = 1"
      "dimW ex_feat = 2" "dimC ex_feat = 2"
    by (simp_all add: ex_feat_def ex_head_def ex_embeddings_def matrix_of_def)
  have "(elem4 out 0 2 0 1 = NaN) = (\<forall>j<2. elem4 ex_feat 0 j 0 1 = 0)"
    and "(elem4 out 0 2 0 0 = NaN) = (\<forall>j<2. elem4 ex_feat 0 j 0 0 = 0)"
    using out(2) sizes by simp_all
  moreover have "\<forall>j<2. elem4 ex_feat 0 j 0 1 = 0"
    by (simp add: ex_feat_def less_2_cases_iff)
  moreover have "\<not> (\<forall>j<2. elem4 ex_feat 0 j 0 0 = 0)"
    by (auto simp: ex_feat_def intro!: exI [of _ 0])
  ultimately show ?thesis using out(1) by simp
qed

subsection \<open>Loading the projections\<close>

lemma contains_weight: "contains ''weight'' ''weight''" "\<not> contains ''weight'' ''bias''"
  by simp_all

lemma expand_weights_lookup:
  "expand_weights sd = Inr sd' \<Longrightarrow>
   map fst sd' = map fst sd \<and>
   map_of sd' key =
     (case map_of sd key of
        None \<Rightarrow> None
      | Some t \<Rightarrow> if contains ''weight'' key
                  then Some (t\<lparr>shape := take 2 (shape t) @ [1, 1] @ drop 2 (shape t)\<rparr>)
                  else Some t)"
proof (induction sd arbitrary: sd')
  case Nil
  then show ?case by simp
next
  case (Cons e sd)
  obtain k t where e: "e = (k, t)" by (cases e)
  show ?case
  proof (cases "contains ''weight'' k")
    case True
    with Cons.prems e obtain t' r where
      "expand_weight t = Inr t'" "expand_weights sd = Inr r" "sd' = (k, t') # r"
      by (auto simp: ebind_Inr)
    then show ?thesis
      using Cons.IH [of r] e True by (auto simp: expand_weight_def split: if_splits)
  next
    case False
    with Cons.prems e obtain r where "expand_weights sd = Inr r" "sd' = (k, t) # r"
      by (auto simp: ebind_Inr)
    then show ?thesis
      using Cons.IH [of r] e False by auto
  qed
qed

lemma expand_weights_returns:
  "\<forall>(k, t)\<in>set sd. contains ''weight'' k \<longrightarrow> 2 \<le> length (shape t) \<Longrightarrow>
   \<exists>sd'. expand_weights sd = Inr sd'"
  by (induction sd) (auto simp: expand_weight_def)



lemma expected_keys:
  "set (map fst (expected_params m)) = (case bias m of None \<Rightarrow> {''weight''} | Some b \<Rightarrow> {''weight'', ''bias''})"
  by (simp add: expected_params_def split: option.split)

lemma stored_linear_loads:
  assumes "stored_linear m sd"
  shows "\<exists>sd' m' w. expand_weights sd = Inr sd' \<and> load_state_dict m sd' = Inr m' \<and>
           map_of sd ''weight'' = Some w \<and>
           shape (weight m') = shape w @ [1, 1] \<and> data (weight m') = data w \<and>
           in_channels m' = in_channels m \<and> out_channels m' = out_channels m \<and>
           bias m' = (case bias m of None \<Rightarrow> None | Some b \<Rightarrow> map_of sd ''bias'')"
proof -
  from assms obtain w where w: "map_of sd ''weight'' = Some w"
      "shape w = [out_channels m, in_channels m]"
    by (auto simp: stored_linear_def split: option.splits)
  have keys: "set (map fst sd) = set (map fst (expected_params m))" and dist: "distinct (map fst sd)"
    using assms by (simp_all add: stored_linear_def)
  have "\<forall>(k, t)\<in>set sd. contains ''weight'' k \<longrightarrow> 2 \<le> length (shape t)"
  proof (clarify)
    fix k t assume kt: "(k, t) \<in> set sd" "contains ''weight'' k"
    then have "k \<in> set (map fst (expected_params m))" using keys by force
    then have "k = ''weight'' \<or> k = ''bias''"
      unfolding expected_keys by (cases "bias m") simp_all
    with kt(2) have "k = ''weight''" using contains_weight(2) by blast
    with kt(1) dist w show "2 \<le> length (shape t)" by simp
  qed
  then obtain sd' where sd': "expand_weights sd = Inr sd'"
    using expand_weights_returns by blast
  note look = expand_weights_lookup [OF sd']
  have wl: "map_of sd' ''weight'' = Some (w\<lparr>shape := shape w @ [1, 1]\<rparr>)"
    using look [of "''weight''"] w by (simp add: contains_weight del: contains.simps)
  have bl: "map_of sd' ''bias'' = map_of sd ''bias''"
    using look [of "''bias''"] by (simp add: contains_weight split: option.splits del: contains.simps)
  have exp_ok: "list_all (\<lambda>(key, shp). (case map_of sd' key of None \<Rightarrow> False | Some t \<Rightarrow> shape t = shp))
                  (expected_params m)"
  proof (cases "bias m")
    case None
    then show ?thesis using w wl by (simp add: expected_params_def)
  next
    case (Some b)
    with assms obtain t where "map_of sd ''bias'' = Some t" "shape t = [out_channels m]"
      by (auto simp: stored_linear_def split: option.splits)
    then show ?thesis using Some w wl bl by (simp add: expected_params_def)
  qed
  have "set (map fst sd') = set (map fst (expected_params m))"
    using look keys by simp
  then have keys_ok: "list_all (\<lambda>(key, t). key \<in> set (map fst (expected_params m))) sd'"
    unfolding list_all_iff by force
  have "load_state_dict m sd' =
          Inr (m\<lparr>weight := the (map_of sd' ''weight''),
                 bias := (case bias m of None \<Rightarrow> None | Some b \<Rightarrow> map_of sd' ''bias'')\<rparr>)"
    unfolding load_state_dict_def using exp_ok keys_ok by simp
  then show ?thesis
    using sd' w(1) wl bl by (simp split: option.split)
qed

lemma loads_only_2d:
  assumes "expand_weights sd = Inr sd'" and "load_state_dict m sd' = Inr m'"
  shows "\<exists>w. map_of sd ''weight'' = Some w \<and> length (shape w) = 2"
proof -
  have "list_all (\<lambda>(key, shp). (case map_of sd' key of None \<Rightarrow> False | Some t \<Rightarrow> shape t = shp))
          (expected_params m)"
    using assms(2) unfolding load_state_dict_def by (simp split: if_splits)
  then obtain t where t: "map_of sd' ''weight'' = Some t"
      "shape t = [out_channels m, in_channels m, 1, 1]"
    by (auto simp: expected_params_def split: option.splits)
  with expand_weights_lookup [OF assms(1), of "''weight''"]
  obtain w where w: "map_of sd ''weight'' = Some w"
      "t = w\<lparr>shape := take 2 (shape w) @ [1, 1] @ drop 2 (shape w)\<rparr>"
    by (auto simp: contains_weight split: option.splits simp del: contains.simps)
  with t(2) have "length (take 2 (shape w) @ [1, 1] @ drop 2 (shape w)) = 4" by simp
  then have "length (shape w) = 2" by simp
  with w show ?thesis by simp
qed


lemma load_projs_stored_linear:
  assumes "distinct attrs"
    and "\<forall>a\<in>set attrs. \<exists>m sd. modules self a = Some m \<and> loaded a = Some sd \<and> stored_linear m sd"
  shows "\<exists>self'. load_projs loaded attrs self = Inr self' \<and>
           (\<forall>a. a \<notin> set attrs \<longrightarrow> modules self' a = modules self a) \<and>
           (\<forall>a\<in>set attrs. \<exists>sd w m'. loaded a = Some sd \<and> map_of sd ''weight'' = Some w \<and>
              modules self' a = Some m' \<and>
              shape (weight m') = shape w @ [1, 1] \<and> data (weight m') = data w)"
  using assms
proof (induction attrs arbitrary: self)
  case Nil
  then show ?case by simp
next
  case (Cons attr attrs)
  from Cons.prems obtain m sd where m: "modules self attr = Some m" "loaded attr = Some sd"
      "stored_linear m sd"
    by auto
  from stored_linear_loads [OF m(3)] obtain sd' m' w where
      l: "expand_weights sd = Inr sd'" "load_state_dict m sd' = Inr m'"
         "map_of sd ''weight'' = Some w"
         "shape (weight m') = shape w @ [1, 1]" "data (weight m') = data w"
    by blast
  let ?self = "self\<lparr>modules := (modules self)(attr \<mapsto> m')\<rparr>"
  have "\<forall>a\<in>set attrs. \<exists>m sd. modules ?self a = Some m \<and> loaded a = Some sd \<and> stored_linear m sd"
    using Cons.prems by auto
  with Cons.IH [of ?self] Cons.prems(1)
  obtain self' where s: "load_projs loaded attrs ?self = Inr self'"
      "\<forall>a. a \<notin> set attrs \<longrightarrow> modules self' a = modules ?self a"
      "\<forall>a\<in>set attrs. \<exists>sd w m'. loaded a = Some sd \<and> map_of sd ''weight'' = Some w \<and>
          modules self' a = Some m' \<and>
          shape (weight m') = shape w @ [1, 1] \<and> data (weight m') = data w"
    by auto
  have "load_projs loaded (attr # attrs) self = Inr self'"
    using m l s(1) by simp
  moreover have "modules self' attr = Some m'"
    using s(2) Cons.prems(1) by simp
  moreover have "\<forall>a. a \<notin> set (attr # attrs) \<longrightarrow> modules self' a = modules self a"
    using s(2) by simp
  ultimately show ?case
    using m(2) l(3,4,5) s(3) by auto
qed

lemma load_projs_only_2d:
  "load_projs loaded attrs self = Inr self' \<Longrightarrow>
   \<forall>a\<in>set attrs. \<exists>sd w. loaded a = Some sd \<and> map_of sd ''weight'' = Some w \<and> length (shape w) = 2"
proof (induction attrs arbitrary: self)
  case Nil
  then show ?case by simp
next
  case (Cons attr attrs)
  from Cons.prems obtain m sd sd' m' where
      s: "modules self attr = Some m" "loaded attr = Some sd" "expand_weights sd = Inr sd'"
         "load_state_dict m sd' = Inr m'"
         "load_projs loaded attrs (self\<lparr>modules := (modules self)(attr \<mapsto> m')\<rparr>) = Inr self'"
    by (auto simp: ebind_Inr split: option.splits)
  from loads_only_2d [OF s(3,4)] s(2) Cons.IH [OF s(5)] show ?case by simp
qed

lemma distinct_proj_attrs: "distinct (proj_attrs self)"
  by (simp add: proj_attrs_def)

text \<open>
  Claim C3, as amended. When the artifact stores every projection of the head as a linear
  layer, with a 2D weight, \<open>load_visual_projs\<close> returns, and each projection then holds
  the stored matrix with two axes of size 1 appended. The two axes are added to every
  weight whatever its rank, so the load returns only if every stored weight is a 2D
  matrix.
\<close>

theorem load_visual_projs_appends:
  "((\<forall>a\<in>set (proj_attrs self).
       \<exists>m sd. modules self a = Some m \<and> loaded a = Some sd \<and> stored_linear m sd) \<longrightarrow>
    (\<exists>self'. load_visual_projs self loaded = Inr self' \<and>
       (\<forall>a\<in>set (proj_attrs self). \<exists>sd w m'.
          loaded a = Some sd \<and> map_of sd ''weight'' = Some w \<and> modules self' a = Some m' \<and>
          shape (weight m') = shape w @ [1, 1] \<and> data (weight m') = data w))) \<and>
   (\<forall>self'. load_visual_projs self loaded = Inr self' \<longrightarrow>
      (\<forall>a\<in>set (proj_attrs self). \<exists>sd w.
         loaded a = Some sd \<and> map_of sd ''weight'' = Some w \<and> length (shape w) = 2))"
proof (intro conjI impI allI)
  assume "\<forall>a\<in>set (proj_attrs self).
            \<exists>m sd. modules self a = Some m \<and> loaded a = Some sd \<and> stored_linear m sd"
  from load_projs_stored_linear [OF distinct_proj_attrs this]
  show "\<exists>self'. load_visual_projs self loaded = Inr self' \<and>
       (\<forall>a\<in>set (proj_attrs self). \<exists>sd w m'.
          loaded a = Some sd \<and> map_of sd ''weight'' = Some w \<and> modules self' a = Some m' \<and>
          shape (weight m') = shape w @ [1, 1] \<and> data (weight m') = data w)"
    unfolding load_visual_projs_def by blast
next
  fix self' assume "load_visual_projs self loaded = Inr self'"
  then show "\<forall>a\<in>set (proj_attrs self). \<exists>sd w.
         loaded a = Some sd \<and> map_of sd ''weight'' = Some w \<and> length (shape w) = 2"
    unfolding load_visual_projs_def by (rule load_projs_only_2d)
qed

theorem load_visual_projs_appends_witness:
  "\<not> isl (load_visual_projs ex_vit_head ex_loaded_2d) \<and>
   shape (weight (the (modules (projr (load_visual_projs ex_vit_head ex_loaded_2d)) ''proj'')))
     = [1, 2, 1, 1] \<and>
   data (weight (the (modules (projr (load_visual_projs ex_vit_head ex_loaded_2d)) ''proj'')))
     = [1, 2]"
proof -
  have attrs: "proj_attrs ex_vit_head = [''proj'']"
    by (simp add: proj_attrs_def ex_vit_head_def ex_head_def)
  have "stored_linear ex_proj [(''weight'', \<lparr>shape = [1, 2], data = [1, 2]\<rparr>)]"
    by (simp add: stored_linear_def expected_params_def ex_proj_def)
  then have "\<forall>a\<in>set (proj_attrs ex_vit_head).
      \<exists>m sd. modules ex_vit_head a = Some m \<and> ex_loaded_2d a = Some sd \<and> stored_linear m sd"
    unfolding attrs by (simp add: ex_vit_head_def ex_loaded_2d_def)
  with load_visual_projs_appends [of ex_vit_head ex_loaded_2d]
  obtain self' where "load_visual_projs ex_vit_head ex_loaded_2d = Inr self'"
    "\<forall>a\<in>set (proj_attrs ex_vit_head). \<exists>sd w m'.
          ex_loaded_2d a = Some sd \<and> map_of sd ''weight'' = Some w \<and> modules self' a = Some m' \<and>
          shape (weight m') = shape w @ [1, 1] \<and> data (weight m') = data w"
    by blast
  then show ?thesis
    unfolding attrs by (auto simp: ex_loaded_2d_def)
qed

text \<open>
  Claim C3 as stated fails for a weight that is stored with four axes already: line 68
  gives it six, and \<^verbatim>\<open>load_state_dict\<close> raises on the shape.
\<close>

theorem load_visual_projs_rejects_4d:
  "expand_weight \<lparr>shape = [1, 2, 1, 1], data = [1, 2]\<rparr>
     = Inr \<lparr>shape = [1, 2, 1, 1, 1, 1], data = [1, 2]\<rparr> \<and>
   load_visual_projs ex_vit_head ex_loaded_4d = Inl RuntimeError"
  by (simp add: load_visual_projs_def proj_attrs_def ex_vit_head_def ex_head_def ex_loaded_4d_def
      ex_proj_def expand_weight_def load_state_dict_def expected_params_def)

subsection \<open>The forward pass in training mode\<close>

text \<open>
  In evaluation mode \<open>forward\<close> hands the logit map of the classifier, the key tensor and
  the class token to \<open>refine_output\<close>: what is proved of \<open>refine_output\<close> for every map,
  key and token holds of every forward pass in evaluation mode.
\<close>

lemma forward_eval:
  assumes "\<not> training self" and "visual_projector self mha inp = Inr (feat, k, cls_token)"
    and "cls_seg self feat = Inr output" and "all_finite4 output"
  shows "forward self mha inp =
           ebind (refine_output self (map4d real_of output) k cls_token)
             (\<lambda>refined. Inr (map4d Fin refined))"
  using assms by (simp add: forward_def)

text \<open>
  Claim C2, as amended. In training mode \<open>forward\<close> does not raise on account of the
  mode: it is the projection followed by \<open>cls_seg\<close>, without refinement, and it returns
  the logit map of shape batch \<times> text_categories \<times> height \<times> width whenever the projection
  yields a feature map with the channels of the text embeddings and at least one pixel.
\<close>

theorem forward_training:
  assumes "training self"
  shows "forward self mha inp =
           ebind (visual_projector self mha inp) (\<lambda>(feat, k, cls_token). cls_seg self feat) \<and>
         (\<forall>feat k ct.
            visual_projector self mha inp = Inr (feat, k, ct) \<and>
            dimC feat = cols (text_embeddings self) \<and> 0 < dimH feat \<and> 0 < dimW feat \<longrightarrow>
            (\<exists>out. forward self mha inp = Inr out \<and> dimN out = dimN feat \<and>
               dimC out = rows (text_embeddings self) \<and>
               dimH out = dimH feat \<and> dimW out = dimW feat))"
proof -
  have eq: "forward self mha inp =
      ebind (visual_projector self mha inp) (\<lambda>(feat, k, cls_token). cls_seg self feat)"
  proof (cases "visual_projector self mha inp")
    case (Inl e)
    then show ?thesis by (simp add: forward_def)
  next
    case (Inr r)
    obtain feat k ct where "r = (feat, k, ct)" by (cases r)
    with Inr assms show ?thesis
      by (cases "cls_seg self feat") (simp_all add: forward_def)
  qed
  then show ?thesis
    by (auto simp: cls_seg_returns)
qed

lemma ex_projection:
  "\<exists>feat. visual_projector ex_train_head ex_mha (Feat ex_feat) = Inr (feat, None, None) \<and>
     dimC feat = 2 \<and> dimH feat = 1 \<and> dimW feat = 2"
  by (simp add: visual_projector_def call_module_def conv2d_def weight4_def ex_train_head_def
      ex_head_def ex_feat_def)

theorem forward_training_witness:
  "\<not> isl (forward ex_train_head ex_mha (Feat ex_feat)) \<and>
   dimC (projr (forward ex_train_head ex_mha (Feat ex_feat))) = 5"
proof -
  obtain feat where feat: "visual_projector ex_train_head ex_mha (Feat ex_feat) = Inr (feat, None, None)"
    "dimC feat = 2" "dimH feat = 1" "dimW feat = 2"
    using ex_projection by blast
  have "training ex_train_head" and te: "cols (text_embeddings ex_train_head) = 2"
    "rows (text_embeddings ex_train_head) = 5"
    by (simp_all add: ex_train_head_def ex_head_def ex_embeddings_def matrix_of_def)
  note conjunct2 [OF forward_training [OF this(1), of ex_mha "Feat ex_feat"]]
  then have "\<exists>out. forward ex_train_head ex_mha (Feat ex_feat) = Inr out \<and> dimN out = dimN feat \<and>
               dimC out = rows (text_embeddings ex_train_head) \<and>
               dimH out = dimH feat \<and> dimW out = dimW feat"
    using feat te by (elim allE [of _ feat] allE [of _ None] impE) simp_all
  then obtain out where "forward ex_train_head ex_mha (Feat ex_feat) = Inr out" "dimC out = 5"
    using te by auto
  then show ?thesis by simp
qed

text \<open>
  Claim C2 as stated fails: in training mode this call returns a logit map. The left
  pixel has the feature vector \<open>(1, 0)\<close>, and its logit for category 2, whose embedding is
  \<open>(1, 1)\<close>, is 1.
\<close>

theorem forward_training_returns:
  "training ex_train_head \<and>
   \<not> isl (forward ex_train_head ex_mha (Feat ex_feat)) \<and>
   elem4 (projr (forward ex_train_head ex_mha (Feat ex_feat))) 0 2 0 0 = Fin 1"
  by (simp add: forward_def visual_projector_def call_module_def conv2d_def weight4_def
      cls_seg_def div_keepdim_def norm_dim1_def unsqueeze_hw_def map2d_def fl_div_def
      ex_train_head_def ex_head_def ex_feat_def ex_embeddings_def matrix_of_def
      upt_small fl_arith)

end
